theory Spec2Isabelle
  imports Main "HOL-Library.Sublist"
begin

section \<open>Data model\<close>

text \<open>
  The transcript types of package \<open>history\<close> as the two source files use them.
  Go strings are byte strings, so they are \<open>string\<close> here; an omitted struct field has
  Go's zero value (the empty string, or \<open>nil\<close>).

  The field \<open>Content interface{}\<close> of a content block holds one of three things in the
  source: nothing (\<open>nil\<close>), a list of content blocks (the synthetic result of a failed
  tool call), or the raw content list of a tool result. It is the selector \<open>Payload\<close>
  below, since \<open>Content\<close> also names the block list of a history message.
\<close>

datatype mcpContent = TextContent string | OtherContent string

datatype 'b payload = NoPayload | Blocks "'b list" | ToolContent "mcpContent list"

datatype ContentBlock =
  ContentBlock (Type: string) (Text: string) (ID: string) (ToolUseID: string)
    (Name: string) (Input: string) (Payload: "ContentBlock payload")

record HistoryMessage =
  Role :: string
  Content :: "ContentBlock list"

section \<open>Pruning the transcript\<close>

text \<open>
  \<open>pruneMessages\<close> reads the global \<open>messageWindow\<close>, an \<open>int\<close> flag; it is the first
  argument here. The slice expression \<open>messages[len(messages)-messageWindow:]\<close> panics
  when its lower bound exceeds the length, which happens for a negative window; the
  panic is the \<open>Inl\<close> result.

  The two Go maps from identifiers to \<open>bool\<close> are functions that answer \<open>False\<close> for a
  missing key, as a Go map lookup does.
\<close>

definition collectBlock ::
  "ContentBlock \<Rightarrow> (string \<Rightarrow> bool) \<times> (string \<Rightarrow> bool) \<Rightarrow> (string \<Rightarrow> bool) \<times> (string \<Rightarrow> bool)" where
  "collectBlock block ids =
     (case ids of (toolUseIds, toolResultIds) \<Rightarrow>
        if Type block = ''tool_use'' then (toolUseIds(ID block := True), toolResultIds)
        else if Type block = ''tool_result'' then (toolUseIds, toolResultIds(ToolUseID block := True))
        else (toolUseIds, toolResultIds))"

definition collectIds :: "HistoryMessage list \<Rightarrow> (string \<Rightarrow> bool) \<times> (string \<Rightarrow> bool)" where
  "collectIds messages =
     fold (\<lambda>msg ids. fold collectBlock (Content msg) ids) messages (\<lambda>_. False, \<lambda>_. False)"

definition keepBlock :: "(string \<Rightarrow> bool) \<Rightarrow> (string \<Rightarrow> bool) \<Rightarrow> ContentBlock \<Rightarrow> bool" where
  "keepBlock toolUseIds toolResultIds block =
     (if Type block = ''tool_use'' then toolResultIds (ID block)
      else if Type block = ''tool_result'' then toolUseIds (ToolUseID block)
      else True)"

definition pruneMessage ::
  "(string \<Rightarrow> bool) \<Rightarrow> (string \<Rightarrow> bool) \<Rightarrow> HistoryMessage \<Rightarrow> HistoryMessage list \<Rightarrow> HistoryMessage list" where
  "pruneMessage toolUseIds toolResultIds msg prunedMessages =
     (let prunedBlocks = filter (keepBlock toolUseIds toolResultIds) (Content msg) in
      if (length prunedBlocks > 0 \<and> Role msg = ''assistant'') \<or> Role msg \<noteq> ''assistant'' then
        (let hasTextBlock = list_ex (\<lambda>block. Type block = ''text'') (Content msg) in
         if length prunedBlocks > 0 \<or> hasTextBlock
         then prunedMessages @ [msg\<lparr>Content := prunedBlocks\<rparr>]
         else prunedMessages)
      else prunedMessages)"

definition pruneMessages :: "int \<Rightarrow> HistoryMessage list \<Rightarrow> string + HistoryMessage list" where
  "pruneMessages messageWindow messages =
     (if int (length messages) \<le> messageWindow then Inr messages
      else if messageWindow < 0 then Inl ''slice bounds out of range''
      else
        (let kept = drop (length messages - nat messageWindow) messages;
             ids = collectIds kept
         in Inr (fold (pruneMessage (fst ids) (snd ids)) kept [])))"

definition allBlocks :: "HistoryMessage list \<Rightarrow> ContentBlock list" where
  "allBlocks msgs = concat (map Content msgs)"

text \<open>
  The segments that the second pass of \<open>pruneMessages\<close> leaves in a turn of the kept
  window, and the pairing property of a transcript: every \<open>tool_use\<close> segment has a
  \<open>tool_result\<close> segment that refers to it, and every \<open>tool_result\<close> segment refers to a
  \<open>tool_use\<close> segment of the transcript.
\<close>

definition prunedBlocks :: "HistoryMessage list \<Rightarrow> HistoryMessage \<Rightarrow> ContentBlock list" where
  "prunedBlocks kept msg =
     filter (keepBlock (fst (collectIds kept)) (snd (collectIds kept))) (Content msg)"

definition paired :: "HistoryMessage list \<Rightarrow> bool" where
  "paired msgs =
     ((\<forall>b \<in> set (allBlocks msgs). Type b = ''tool_use'' \<longrightarrow>
         (\<exists>r \<in> set (allBlocks msgs). Type r = ''tool_result'' \<and> ToolUseID r = ID b))
    \<and> (\<forall>r \<in> set (allBlocks msgs). Type r = ''tool_result'' \<longrightarrow>
         (\<exists>b \<in> set (allBlocks msgs). Type b = ''tool_use'' \<and> ID b = ToolUseID r)))"

section \<open>Functions of the Go library\<close>

text \<open>
  \<open>strings.Index\<close>, \<open>strings.Contains\<close> and \<open>strings.Split\<close> on byte strings. For an
  empty separator Go splits after each UTF-8 sequence; the model splits after each byte,
  which is the same on ASCII, and the orchestrator only ever splits on \<open>__\<close>.
\<close>

definition NL :: string where
  "NL = [CHR 0x0A]"

fun Index :: "string \<Rightarrow> string \<Rightarrow> nat option" where
  "Index [] substr = (if substr = [] then Some 0 else None)"
| "Index (c # s) substr =
     (if prefix substr (c # s) then Some 0 else map_option Suc (Index s substr))"

definition Contains :: "string \<Rightarrow> string \<Rightarrow> bool" where
  "Contains s substr = (Index s substr \<noteq> None)"

function Split :: "string \<Rightarrow> string \<Rightarrow> string list" where
  "Split s sep =
     (if sep = [] then map (\<lambda>c. [c]) s
      else case Index s sep of
             None \<Rightarrow> [s]
           | Some m \<Rightarrow> take m s # Split (drop (m + length sep) s) sep)"
  by pat_completeness auto
termination
proof (relation "measure (\<lambda>(s, sep). length s)")
  show "wf (measure (\<lambda>(s, sep). length s))" by simp
next
  fix s sep :: string and m :: nat
  assume sep: "sep \<noteq> []" and m: "Index s sep = Some m"
  from sep m have "s \<noteq> []" by (cases s) auto
  with sep show "((drop (m + length sep) s, sep), (s, sep)) \<in> measure (\<lambda>(s, sep). length s)"
    by (cases sep) auto
qed

text \<open>
  \<open>strings.TrimSpace\<close> removes the leading and trailing white space of a string, as
  \<open>unicode.IsSpace\<close> defines it. \<open>spaceRunes\<close> lists the UTF-8 encodings of those code
  points: the six ASCII ones, U+0085, U+00A0, U+1680, U+2000 to U+200A, U+2028, U+2029,
  U+202F, U+205F and U+3000.
\<close>

definition spaceRunes :: "string list" where
  "spaceRunes =
     [[CHR 0x09], [CHR 0x0A], [CHR 0x0B], [CHR 0x0C], [CHR 0x0D], [CHR 0x20],
      [CHR 0xC2, CHR 0x85], [CHR 0xC2, CHR 0xA0], [CHR 0xE1, CHR 0x9A, CHR 0x80],
      [CHR 0xE2, CHR 0x80, CHR 0x80], [CHR 0xE2, CHR 0x80, CHR 0x81],
      [CHR 0xE2, CHR 0x80, CHR 0x82], [CHR 0xE2, CHR 0x80, CHR 0x83],
      [CHR 0xE2, CHR 0x80, CHR 0x84], [CHR 0xE2, CHR 0x80, CHR 0x85],
      [CHR 0xE2, CHR 0x80, CHR 0x86], [CHR 0xE2, CHR 0x80, CHR 0x87],
      [CHR 0xE2, CHR 0x80, CHR 0x88], [CHR 0xE2, CHR 0x80, CHR 0x89],
      [CHR 0xE2, CHR 0x80, CHR 0x8A], [CHR 0xE2, CHR 0x80, CHR 0xA8],
      [CHR 0xE2, CHR 0x80, CHR 0xA9], [CHR 0xE2, CHR 0x80, CHR 0xAF],
      [CHR 0xE2, CHR 0x81, CHR 0x9F], [CHR 0xE3, CHR 0x80, CHR 0x80]]"

definition leadingSpace :: "string \<Rightarrow> nat" where
  "leadingSpace s = (case find (\<lambda>q. prefix q s) spaceRunes of None \<Rightarrow> 0 | Some q \<Rightarrow> length q)"

function TrimLeft :: "string \<Rightarrow> string" where
  "TrimLeft s = (if leadingSpace s = 0 then s else TrimLeft (drop (leadingSpace s) s))"
  by pat_completeness auto
termination
proof (relation "measure length")
  show "wf (measure length)" by simp
next
  fix s :: string
  assume "leadingSpace s \<noteq> 0"
  moreover have "leadingSpace [] = 0"
    by (simp add: leadingSpace_def spaceRunes_def)
  ultimately have "s \<noteq> []" by auto
  with \<open>leadingSpace s \<noteq> 0\<close> show "(drop (leadingSpace s) s, s) \<in> measure length"
    by simp
qed

definition trailingSpace :: "string \<Rightarrow> nat" where
  "trailingSpace s = (case find (\<lambda>q. suffix q s) spaceRunes of None \<Rightarrow> 0 | Some q \<Rightarrow> length q)"

function TrimRight :: "string \<Rightarrow> string" where
  "TrimRight s =
     (if trailingSpace s = 0 then s else TrimRight (take (length s - trailingSpace s) s))"
  by pat_completeness auto
termination
proof (relation "measure length")
  show "wf (measure length)" by simp
next
  fix s :: string
  assume "trailingSpace s \<noteq> 0"
  moreover have "trailingSpace [] = 0"
    by (simp add: trailingSpace_def spaceRunes_def)
  ultimately have "s \<noteq> []" by auto
  with \<open>trailingSpace s \<noteq> 0\<close> show "(take (length s - trailingSpace s) s, s) \<in> measure length"
    by simp
qed

definition TrimSpace :: "string \<Rightarrow> string" where
  "TrimSpace s = TrimRight (TrimLeft s)"

section \<open>The provider, the tool servers and the terminal\<close>

text \<open>
  A reply of the provider is read through the methods of \<open>llm.Message\<close> and
  \<open>llm.ToolCall\<close>; the argument object of a tool call is opaque to the orchestrator and
  is the type parameter \<open>'a\<close>. The content of a tool result is \<open>None\<close> for a \<open>nil\<close> slice.
\<close>

datatype 'a ToolCall = ToolCall (GetID: string) (GetName: string) (GetArguments: 'a)

datatype 'a Message =
  Message (GetRole: string) (GetContent: string) (GetToolCalls: "'a ToolCall list")
    (GetUsage: "int \<times> int")

datatype CallToolResult = CallToolResult (ResultContent: "mcpContent list option")

text \<open>
  What lies outside the two source files is a parameter. Each call of the provider, of a
  tool server and of the terminal renderer may answer differently every time, so each
  takes the number of such calls made so far (\<open>ticks\<close> of the state). An error is its
  message, \<open>err.Error()\<close>.
  \<^item> \<open>CreateMessage\<close>: the provider, given the prompt and the transcript (the context and
    the tool catalogue are the same in every call of one turn and are left out);
  \<open>Inl\<close> is the error.
  \<^item> \<open>Marshal\<close>: the bytes \<open>json.Marshal\<close> returns for an argument object (its error is
    discarded by the source); \<open>Unmarshal\<close>: \<open>json.Unmarshal\<close> into a map.
  \<^item> \<open>UpdateRenderer\<close>: \<open>updateRenderer()\<close>, \<open>Some\<close> error when no renderer can be made;
    \<open>Render\<close>: \<open>renderer.Render\<close>.
  \<^item> \<open>promptStyle\<close>, \<open>errorStyle\<close>: the \<open>Render\<close> methods of the two terminal styles.
  A client of a tool server is its \<open>CallTool\<close>, given the tool name and the arguments.
\<close>

record 'a env =
  CreateMessage :: "nat \<Rightarrow> string \<Rightarrow> HistoryMessage list \<Rightarrow> string + 'a Message"
  Marshal :: "'a \<Rightarrow> string"
  Unmarshal :: "string \<Rightarrow> string + 'a"
  UpdateRenderer :: "nat \<Rightarrow> string option"
  Render :: "nat \<Rightarrow> string \<Rightarrow> string + string"
  promptStyle :: "string \<Rightarrow> string"
  errorStyle :: "string \<Rightarrow> string"

type_synonym 'a MCPClient = "nat \<Rightarrow> string \<Rightarrow> 'a \<Rightarrow> string + CallToolResult"

text \<open>
  The state that a turn changes: the transcript behind the pointer \<open>messages\<close>, the
  number of outside calls made, and the record of what was done, in order: the provider
  calls (with prompt and transcript), the tool calls (server and tool name), the sleeps
  (in nanoseconds) and what was written to standard output. Logging and the spinner are
  not recorded.
\<close>

datatype event =
  ProviderCalled string "HistoryMessage list"
| ToolCalled string string
| Slept int
| Printed string

record state =
  transcript :: "HistoryMessage list"
  ticks :: nat
  events :: "event list"

definition emit :: "event \<Rightarrow> state \<Rightarrow> state" where
  "emit e st = st\<lparr>events := events st @ [e]\<rparr>"

definition tick :: "state \<Rightarrow> state" where
  "tick st = st\<lparr>ticks := Suc (ticks st)\<rparr>"

definition appendMessage :: "HistoryMessage \<Rightarrow> state \<Rightarrow> state" where
  "appendMessage msg st = st\<lparr>transcript := transcript st @ [msg]\<rparr>"

definition sleeps :: "event list \<Rightarrow> int list" where
  "sleeps evs = concat (map (\<lambda>e. case e of Slept d \<Rightarrow> [d] | _ \<Rightarrow> []) evs)"

definition providerCalls :: "event list \<Rightarrow> (string \<times> HistoryMessage list) list" where
  "providerCalls evs = concat (map (\<lambda>e. case e of ProviderCalled p ms \<Rightarrow> [(p, ms)] | _ \<Rightarrow> []) evs)"

definition toolCalls :: "event list \<Rightarrow> (string \<times> string) list" where
  "toolCalls evs = concat (map (\<lambda>e. case e of ToolCalled s t \<Rightarrow> [(s, t)] | _ \<Rightarrow> []) evs)"

definition printed :: "event list \<Rightarrow> string list" where
  "printed evs = concat (map (\<lambda>e. case e of Printed s \<Rightarrow> [s] | _ \<Rightarrow> []) evs)"

section \<open>The struct literals of the orchestrator\<close>

definition textBlock :: "string \<Rightarrow> ContentBlock" where
  "textBlock text = ContentBlock ''text'' text [] [] [] [] NoPayload"

definition toolUseBlock :: "string \<Rightarrow> string \<Rightarrow> string \<Rightarrow> ContentBlock" where
  "toolUseBlock callID name input = ContentBlock ''tool_use'' [] callID [] name input NoPayload"

definition toolResultBlock :: "string \<Rightarrow> string \<Rightarrow> ContentBlock payload \<Rightarrow> ContentBlock" where
  "toolResultBlock toolUseID text content = ContentBlock ''tool_result'' text [] toolUseID [] [] content"

definition userMessage :: "string \<Rightarrow> HistoryMessage" where
  "userMessage prompt = \<lparr>Role = ''user'', Content = [textBlock prompt]\<rparr>"

definition toolMessage :: "ContentBlock \<Rightarrow> HistoryMessage" where
  "toolMessage toolResult = \<lparr>Role = ''tool'', Content = [toolResult]\<rparr>"

section \<open>Backoff\<close>

text \<open>
  A \<open>time.Duration\<close> is a signed 64-bit count of nanoseconds; \<open>backoff *= 2\<close> wraps.
\<close>

definition wrap64 :: "int \<Rightarrow> int" where
  "wrap64 x = (x + 2 ^ 63) mod 2 ^ 64 - 2 ^ 63"

definition initialBackoff :: int where
  "initialBackoff = 1000000000"

definition maxBackoff :: int where
  "maxBackoff = 30000000000"

definition maxRetries :: int where
  "maxRetries = 5"

definition overloadedMessage :: string where
  "overloadedMessage = ''claude is currently overloaded. please wait a few minutes and try again''"

text \<open>
  The \<open>for\<close> loop of \<open>runPrompt\<close> around \<open>provider.CreateMessage\<close>, with the loop
  variables \<open>backoff\<close> and \<open>retries\<close>. It ends with the reply or with the error that
  \<open>runPrompt\<close> returns.
\<close>

function retryLoop ::
  "'a env \<Rightarrow> string \<Rightarrow> HistoryMessage list \<Rightarrow> int \<Rightarrow> int \<Rightarrow> state \<Rightarrow> (string + 'a Message) \<times> state" where
  "retryLoop env prompt llmMessages backoff retries st =
     (let st1 = tick (emit (ProviderCalled prompt llmMessages) st) in
      case CreateMessage env (ticks st) prompt llmMessages of
        Inl err \<Rightarrow>
          if Contains err ''overloaded_error'' then
            if retries \<ge> maxRetries then (Inl overloadedMessage, st1)
            else
              (let st2 = emit (Slept backoff) st1;
                   doubled = wrap64 (backoff * 2);
                   backoff' = (if doubled > maxBackoff then maxBackoff else doubled)
               in retryLoop env prompt llmMessages backoff' (retries + 1) st2)
          else (Inl err, st1)
      | Inr message \<Rightarrow> (Inr message, st1))"
  by pat_completeness auto
termination
  by (relation "measure (\<lambda>(env, prompt, llmMessages, backoff, retries, st). nat (maxRetries - retries))")
     auto

section \<open>Dispatching the tool calls\<close>

text \<open>
  The text summary of a successful tool result: the loop over the raw content that
  appends each plain-text item followed by a space.
\<close>

definition resultText :: "mcpContent list \<Rightarrow> string" where
  "resultText content =
     fold (\<lambda>item resultText. case item of TextContent text \<Rightarrow> resultText @ text @ '' ''
                                         | OtherContent _ \<Rightarrow> resultText) content []"

text \<open>
  The body of the loop over \<open>message.GetToolCalls()\<close>, which is the same in \<open>runPrompt\<close>
  and in \<open>runPromptNonInteractive\<close> up to logging and the spinner. It works on the
  accumulated \<open>messageContent\<close> and \<open>toolResults\<close> and on the state; each \<open>continue\<close> of
  the source is a branch that returns.
\<close>

definition handleToolCall ::
  "'a env \<Rightarrow> (string \<rightharpoonup> 'a MCPClient) \<Rightarrow> 'a ToolCall
   \<Rightarrow> ContentBlock list \<times> ContentBlock list \<times> state
   \<Rightarrow> ContentBlock list \<times> ContentBlock list \<times> state" where
  "handleToolCall env mcpClients toolCall acc =
     (case acc of (messageContent0, toolResults, st) \<Rightarrow>
      let input = Marshal env (GetArguments toolCall);
          messageContent = messageContent0 @ [toolUseBlock (GetID toolCall) (GetName toolCall) input]
      in case Split (GetName toolCall) ''__'' of
           [serverName, toolName] \<Rightarrow>
             (case mcpClients serverName of
                None \<Rightarrow>
                  (messageContent, toolResults,
                   emit (Printed (''Error: Server not found: '' @ serverName @ NL)) st)
              | Some mcpClient \<Rightarrow>
                  (case Unmarshal env input of
                     Inl err \<Rightarrow>
                       (messageContent, toolResults,
                        emit (Printed (''Error parsing tool arguments: '' @ err @ NL)) st)
                   | Inr toolArgs \<Rightarrow>
                       (let st1 = tick (emit (ToolCalled serverName toolName) st) in
                        case mcpClient (ticks st) toolName toolArgs of
                          Inl err \<Rightarrow>
                            (let errMsg = ''Error calling tool '' @ toolName @ '': '' @ err in
                             (messageContent,
                              toolResults @ [toolResultBlock (GetID toolCall) [] (Blocks [textBlock errMsg])],
                              emit (Printed (NL @ errorStyle env errMsg @ NL)) st1))
                        | Inr toolResult \<Rightarrow>
                            (case ResultContent toolResult of
                               None \<Rightarrow> (messageContent, toolResults, st1)
                             | Some content \<Rightarrow>
                                 (messageContent,
                                  toolResults @ [toolResultBlock (GetID toolCall)
                                                   (TrimSpace (resultText content)) (ToolContent content)],
                                  st1)))))
         | _ \<Rightarrow>
             (messageContent, toolResults,
              emit (Printed (''Error: Invalid tool name format: '' @ GetName toolCall @ NL)) st))"

definition appendToolResults :: "ContentBlock list \<Rightarrow> state \<Rightarrow> state" where
  "appendToolResults toolResults st = fold (\<lambda>toolResult. appendMessage (toolMessage toolResult)) toolResults st"

section \<open>The interactive turn\<close>

text \<open>
  The first statement of \<open>runPrompt\<close>: a non-empty prompt is shown and appended as a
  \<open>user\<close> turn.
\<close>

definition showPrompt :: "'a env \<Rightarrow> string \<Rightarrow> state \<Rightarrow> state" where
  "showPrompt env prompt st =
     (if prompt \<noteq> [] then
        appendMessage (userMessage prompt)
          (emit (Printed (NL @ promptStyle env (''You: '' @ prompt) @ NL)) st)
      else st)"

text \<open>
  Showing the reply: the heading is rendered in any case and printed when the reply has
  text and the rendering worked; a reply with text is rendered by a fresh renderer, and
  printed raw when that rendering fails. The result is the first value of
  \<open>messageContent\<close>, or the error that \<open>runPrompt\<close> returns when no renderer can be made.
\<close>

definition showReply :: "'a env \<Rightarrow> 'a Message \<Rightarrow> state \<Rightarrow> (string + ContentBlock list) \<times> state" where
  "showReply env message st =
     (let st1 = (case Render env (ticks st) (NL @ ''Assistant: '') of
                   Inr str \<Rightarrow> if GetContent message \<noteq> [] then emit (Printed str) (tick st) else tick st
                 | Inl _ \<Rightarrow> tick st)
      in if GetContent message \<noteq> [] then
           (case UpdateRenderer env (ticks st1) of
              Some err \<Rightarrow> (Inl (''error updating renderer: '' @ err), tick st1)
            | None \<Rightarrow>
                (let st2 = tick st1 in
                 case Render env (ticks st2) (GetContent message @ NL) of
                   Inl _ \<Rightarrow> (Inr [textBlock (GetContent message)],
                             emit (Printed (GetContent message @ NL)) (tick st2))
                 | Inr str \<Rightarrow> (Inr [textBlock (GetContent message)],
                              emit (Printed str) (tick st2))))
         else (Inr [], st1))"

text \<open>
  \<open>runPrompt\<close> calls itself for as long as the provider asks for tools, so the model
  takes the number of rounds it may run: \<open>None\<close> says that this number did not suffice.
  Otherwise the result is the returned error (\<open>None\<close> for \<open>nil\<close>) and the final state.
\<close>

fun runPrompt ::
  "nat \<Rightarrow> 'a env \<Rightarrow> (string \<rightharpoonup> 'a MCPClient) \<Rightarrow> string \<Rightarrow> state \<Rightarrow> (string option \<times> state) option" where
  "runPrompt 0 env mcpClients prompt st = None"
| "runPrompt (Suc rounds) env mcpClients prompt st =
     (let st1 = showPrompt env prompt st in
      case retryLoop env prompt (transcript st1) initialBackoff 0 st1 of
        (Inl err, st2) \<Rightarrow> Some (Some err, st2)
      | (Inr message, st2) \<Rightarrow>
          (case showReply env message st2 of
             (Inl err, st3) \<Rightarrow> Some (Some err, st3)
           | (Inr messageContent0, st3) \<Rightarrow>
               (case fold (handleToolCall env mcpClients) (GetToolCalls message) (messageContent0, [], st3) of
                  (messageContent, toolResults, st4) \<Rightarrow>
                    (let st5 = appendMessage \<lparr>Role = GetRole message, Content = messageContent\<rparr> st4 in
                     if length toolResults > 0 then
                       runPrompt rounds env mcpClients [] (appendToolResults toolResults st5)
                     else Some (None, emit (Printed NL) st5)))))"

section \<open>The non-interactive turn\<close>

text \<open>
  \<open>runPromptNonInteractive\<close> returns a string and an error; the result is \<open>Inl\<close> of the
  error (the string is then empty) or \<open>Inr\<close> of the string. The second test of
  \<open>message.GetContent()\<close> is kept as the source has it.
\<close>

fun runPromptNonInteractive ::
  "nat \<Rightarrow> 'a env \<Rightarrow> (string \<rightharpoonup> 'a MCPClient) \<Rightarrow> string \<Rightarrow> state \<Rightarrow> ((string + string) \<times> state) option" where
  "runPromptNonInteractive 0 env mcpClients prompt st = None"
| "runPromptNonInteractive (Suc rounds) env mcpClients prompt st =
     (let st1 = tick (emit (ProviderCalled prompt (transcript st)) st) in
      case CreateMessage env (ticks st) prompt (transcript st) of
        Inl err \<Rightarrow> Some (Inl err, st1)
      | Inr message \<Rightarrow>
          if GetContent message \<noteq> [] then Some (Inr (GetContent message), st1)
          else
            (let messageContent0 =
                   (if GetContent message \<noteq> [] then [textBlock (GetContent message)] else [])
             in case fold (handleToolCall env mcpClients) (GetToolCalls message) (messageContent0, [], st1) of
                  (messageContent, toolResults, st2) \<Rightarrow>
                    (let st3 = appendMessage \<lparr>Role = GetRole message, Content = messageContent\<rparr> st2 in
                     if length toolResults > 0 then
                       runPromptNonInteractive rounds env mcpClients [] (appendToolResults toolResults st3)
                     else Some (Inr [], st3))))"

section \<open>Notions for stating the properties\<close>

text \<open>
  Whether the provider's answer to a call is the overloaded condition, as the retry loop
  tests it.
\<close>

definition isOverloaded :: "'a env \<Rightarrow> nat \<Rightarrow> string \<Rightarrow> HistoryMessage list \<Rightarrow> bool" where
  "isOverloaded env n prompt llmMessages =
     (case CreateMessage env n prompt llmMessages of
        Inl err \<Rightarrow> Contains err ''overloaded_error''
      | Inr _ \<Rightarrow> False)"

text \<open>
  What the loop over the tool calls has dispatched: the tool results, the tool calls made
  and the number of outside calls.
\<close>

definition dispatched ::
  "ContentBlock list \<times> ContentBlock list \<times> state \<Rightarrow> ContentBlock list \<times> (string \<times> string) list \<times> nat" where
  "dispatched acc = (case acc of (messageContent, toolResults, st) \<Rightarrow>
     (toolResults, toolCalls (events st), ticks st))"

text \<open>The plain-text items of a raw tool result content, in order.\<close>

definition textItems :: "mcpContent list \<Rightarrow> string list" where
  "textItems content = concat (map (\<lambda>item. case item of TextContent text \<Rightarrow> [text] | OtherContent _ \<Rightarrow> []) content)"

text \<open>
  An outside world for the examples: the given provider, argument objects that are
  their own JSON text, and a terminal that shows every text as it is.
\<close>

abbreviation plainEnv :: "(nat \<Rightarrow> string \<Rightarrow> HistoryMessage list \<Rightarrow> string + string Message) \<Rightarrow> string env" where
  "plainEnv provider \<equiv>
     \<lparr>CreateMessage = provider, Marshal = (\<lambda>arguments. arguments), Unmarshal = Inr,
      UpdateRenderer = (\<lambda>n. None), Render = (\<lambda>n text. Inr text),
      promptStyle = (\<lambda>text. text), errorStyle = (\<lambda>text. text)\<rparr>"

section \<open>Pruning below the threshold\<close>

text \<open>
  Claim C9. A transcript whose number of turns is at most the window size is returned
  by \<open>pruneMessages\<close> as it is.
\<close>

theorem pruneMessages_noop:
  "int (length messages) \<le> messageWindow \<Longrightarrow> pruneMessages messageWindow messages = Inr messages"
  by (simp add: pruneMessages_def)

theorem pruneMessages_noop_witness:
  "int (length [\<lparr>Role = ''user'', Content = [ContentBlock ''text'' ''hi'' [] [] [] [] NoPayload]\<rparr>]) \<le> 10
   \<and> pruneMessages 10 [\<lparr>Role = ''user'', Content = [ContentBlock ''text'' ''hi'' [] [] [] [] NoPayload]\<rparr>]
       = Inr [\<lparr>Role = ''user'', Content = [ContentBlock ''text'' ''hi'' [] [] [] [] NoPayload]\<rparr>]"
  using pruneMessages_noop [of "[\<lparr>Role = ''user'', Content = [ContentBlock ''text'' ''hi'' [] [] [] [] NoPayload]\<rparr>]" 10]
  by simp

section \<open>Pruning: the two passes\<close>

lemma fold_collectBlock_fst:
  "fst (fold collectBlock bs ids) x \<longleftrightarrow>
     fst ids x \<or> (\<exists>b \<in> set bs. Type b = ''tool_use'' \<and> ID b = x)"
  by (induction bs arbitrary: ids) (auto simp: collectBlock_def split: prod.splits)

lemma fold_collectBlock_snd:
  "snd (fold collectBlock bs ids) x \<longleftrightarrow>
     snd ids x \<or> (\<exists>b \<in> set bs. Type b = ''tool_result'' \<and> ToolUseID b = x)"
  by (induction bs arbitrary: ids) (auto simp: collectBlock_def split: prod.splits)

lemma fold_collect_messages_fst:
  "fst (fold (\<lambda>msg ids. fold collectBlock (Content msg) ids) ms ids) x \<longleftrightarrow>
     fst ids x \<or> (\<exists>b \<in> set (allBlocks ms). Type b = ''tool_use'' \<and> ID b = x)"
  by (induction ms arbitrary: ids) (auto simp: allBlocks_def fold_collectBlock_fst)

lemma fold_collect_messages_snd:
  "snd (fold (\<lambda>msg ids. fold collectBlock (Content msg) ids) ms ids) x \<longleftrightarrow>
     snd ids x \<or> (\<exists>b \<in> set (allBlocks ms). Type b = ''tool_result'' \<and> ToolUseID b = x)"
  by (induction ms arbitrary: ids) (auto simp: allBlocks_def fold_collectBlock_snd)

lemma toolUseIds_iff:
  "fst (collectIds ms) x \<longleftrightarrow> (\<exists>b \<in> set (allBlocks ms). Type b = ''tool_use'' \<and> ID b = x)"
  by (simp add: collectIds_def fold_collect_messages_fst)

lemma toolResultIds_iff:
  "snd (collectIds ms) x \<longleftrightarrow> (\<exists>b \<in> set (allBlocks ms). Type b = ''tool_result'' \<and> ToolUseID b = x)"
  by (simp add: collectIds_def fold_collect_messages_snd)

lemma text_block_kept: "Type block = ''text'' \<Longrightarrow> keepBlock u r block"
  by (simp add: keepBlock_def)

lemma pruneMessage_eq:
  "pruneMessage u r msg acc =
     (if filter (keepBlock u r) (Content msg) = [] then acc
      else acc @ [msg\<lparr>Content := filter (keepBlock u r) (Content msg)\<rparr>])"
proof (cases "filter (keepBlock u r) (Content msg) = []")
  case True
  then have "\<not> list_ex (\<lambda>block. Type block = ''text'') (Content msg)"
    by (auto simp: list_ex_iff filter_empty_conv text_block_kept)
  with True show ?thesis by (simp add: pruneMessage_def)
next
  case False
  then show ?thesis by (auto simp: pruneMessage_def Let_def)
qed

lemma fold_pruneMessage:
  "fold (pruneMessage u r) ms acc =
     acc @ map (\<lambda>m. m\<lparr>Content := filter (keepBlock u r) (Content m)\<rparr>)
             (filter (\<lambda>m. filter (keepBlock u r) (Content m) \<noteq> []) ms)"
  by (induction ms arbitrary: acc) (simp_all add: pruneMessage_eq)

lemma pruneMessages_above:
  "0 \<le> W \<Longrightarrow> W < int (length T) \<Longrightarrow>
   pruneMessages W T =
     Inr (map (\<lambda>m. m\<lparr>Content := prunedBlocks (drop (length T - nat W) T) m\<rparr>)
            (filter (\<lambda>m. prunedBlocks (drop (length T - nat W) T) m \<noteq> []) (drop (length T - nat W) T)))"
  by (simp add: pruneMessages_def Let_def fold_pruneMessage prunedBlocks_def)

lemma allBlocks_pruned:
  "set (allBlocks (map (\<lambda>m. m\<lparr>Content := filter P (Content m)\<rparr>)
            (filter (\<lambda>m. filter P (Content m) \<noteq> []) ms)))
   = {b \<in> set (allBlocks ms). P b}"
  by (auto simp: allBlocks_def filter_empty_conv)

lemma paired_pruned:
  "paired (map (\<lambda>m. m\<lparr>Content := prunedBlocks kept m\<rparr>)
            (filter (\<lambda>m. prunedBlocks kept m \<noteq> []) kept))"
proof -
  let ?u = "fst (collectIds kept)" and ?r = "snd (collectIds kept)"
  let ?R = "map (\<lambda>m. m\<lparr>Content := prunedBlocks kept m\<rparr>)
            (filter (\<lambda>m. prunedBlocks kept m \<noteq> []) kept)"
  have R: "set (allBlocks ?R) = {b \<in> set (allBlocks kept). keepBlock ?u ?r b}"
    unfolding prunedBlocks_def by (rule allBlocks_pruned)
  have use: "\<exists>r \<in> set (allBlocks ?R). Type r = ''tool_result'' \<and> ToolUseID r = ID b"
    if b: "b \<in> set (allBlocks ?R)" and t: "Type b = ''tool_use''" for b
  proof -
    from b t R have bk: "b \<in> set (allBlocks kept)" and "?r (ID b)"
      by (auto simp: keepBlock_def)
    then obtain r where r: "r \<in> set (allBlocks kept)" "Type r = ''tool_result''" "ToolUseID r = ID b"
      unfolding toolResultIds_iff by blast
    from bk t r have "?u (ToolUseID r)"
      unfolding toolUseIds_iff by auto
    with r have "keepBlock ?u ?r r" by (simp add: keepBlock_def)
    with r R show ?thesis by blast
  qed
  have res: "\<exists>b \<in> set (allBlocks ?R). Type b = ''tool_use'' \<and> ID b = ToolUseID r"
    if r: "r \<in> set (allBlocks ?R)" and t: "Type r = ''tool_result''" for r
  proof -
    from r t R have rk: "r \<in> set (allBlocks kept)" and "?u (ToolUseID r)"
      by (auto simp: keepBlock_def)
    then obtain b where b: "b \<in> set (allBlocks kept)" "Type b = ''tool_use''" "ID b = ToolUseID r"
      unfolding toolUseIds_iff by blast
    from rk t b have "?r (ID b)"
      unfolding toolResultIds_iff by auto
    with b have "keepBlock ?u ?r b" by (simp add: keepBlock_def)
    with b R show ?thesis by blast
  qed
  show ?thesis
    unfolding paired_def using use res by blast
qed

lemmas prune_eval =
  pruneMessages_def collectIds_def collectBlock_def pruneMessage_def keepBlock_def
  textBlock_def toolUseBlock_def toolResultBlock_def userMessage_def toolMessage_def Let_def

lemmas paired_eval =
  paired_def allBlocks_def textBlock_def toolUseBlock_def toolResultBlock_def
  userMessage_def toolMessage_def

section \<open>Pruning: which turns stay\<close>

text \<open>
  Claim C2, as the code has it. Above the threshold the pruned transcript consists of
  the turns of the kept window that still have a segment after filtering, each with its
  filtered segments, in order; the role plays no part. An \<open>assistant\<close> turn left with no
  segment is dropped, and so is a turn of any other role, also one that had no segments
  to begin with. A turn with a text segment always keeps a segment (text segments are
  never filtered out), so it stays.
\<close>

theorem pruneMessages_kept_turns:
  "0 \<le> W \<Longrightarrow> W < int (length T) \<Longrightarrow>
   pruneMessages W T =
     Inr (map (\<lambda>m. m\<lparr>Content := prunedBlocks (drop (length T - nat W) T) m\<rparr>)
            (filter (\<lambda>m. prunedBlocks (drop (length T - nat W) T) m \<noteq> [])
               (drop (length T - nat W) T)))
   \<and> (\<forall>m \<in> set (drop (length T - nat W) T).
         list_ex (\<lambda>block. Type block = ''text'') (Content m) \<longrightarrow>
         prunedBlocks (drop (length T - nat W) T) m \<noteq> [])"
proof (intro conjI ballI impI)
  assume "0 \<le> W" "W < int (length T)"
  then show "pruneMessages W T =
     Inr (map (\<lambda>m. m\<lparr>Content := prunedBlocks (drop (length T - nat W) T) m\<rparr>)
            (filter (\<lambda>m. prunedBlocks (drop (length T - nat W) T) m \<noteq> [])
               (drop (length T - nat W) T)))"
    by (rule pruneMessages_above)
next
  fix m :: HistoryMessage
  assume "list_ex (\<lambda>block. Type block = ''text'') (Content m)"
  then show "prunedBlocks (drop (length T - nat W) T) m \<noteq> []"
    by (auto simp: prunedBlocks_def list_ex_iff filter_empty_conv intro: text_block_kept)
qed

text \<open>
  With a window of two, the \<open>tool\<close> turn whose only segment answers a call outside the
  window is dropped, and the \<open>user\<close> turn keeps its text.
\<close>

theorem pruneMessages_kept_turns_witness:
  "(0::int) \<le> 2
   \<and> 2 < int (length [\<lparr>Role = ''assistant'', Content = [toolUseBlock ''a'' ''fs__read'' ''{}'']\<rparr>,
                      toolMessage (toolResultBlock ''a'' ''ok'' (ToolContent [TextContent ''ok''])),
                      userMessage ''next''])
   \<and> pruneMessages 2 [\<lparr>Role = ''assistant'', Content = [toolUseBlock ''a'' ''fs__read'' ''{}'']\<rparr>,
                      toolMessage (toolResultBlock ''a'' ''ok'' (ToolContent [TextContent ''ok''])),
                      userMessage ''next'']
       = Inr [userMessage ''next'']"
  using pruneMessages_kept_turns [of 2
           "[\<lparr>Role = ''assistant'', Content = [toolUseBlock ''a'' ''fs__read'' ''{}'']\<rparr>,
             toolMessage (toolResultBlock ''a'' ''ok'' (ToolContent [TextContent ''ok''])),
             userMessage ''next'']"]
  by (simp add: prunedBlocks_def prune_eval)

text \<open>
  The claim as written fails: a \<open>user\<close> turn that had no segments to begin with is
  dropped.
\<close>

theorem pruneMessages_empty_turn_dropped:
  "pruneMessages 1 [userMessage ''a'', \<lparr>Role = ''user'', Content = []\<rparr>] = Inr []"
  by (simp add: prune_eval)

section \<open>Pruning: pairing\<close>

text \<open>
  Claim C3, as the code has it. For a window size that is not negative and a transcript
  with more turns than the window, \<open>pruneMessages\<close> returns a transcript in which every
  \<open>tool_use\<close> segment has a \<open>tool_result\<close> segment referring to it and every
  \<open>tool_result\<close> segment refers to a \<open>tool_use\<close> segment.
\<close>

theorem pruneMessages_paired:
  "0 \<le> W \<Longrightarrow> W < int (length T) \<Longrightarrow> \<exists>R. pruneMessages W T = Inr R \<and> paired R"
  using pruneMessages_above [of W T] paired_pruned [of "drop (length T - nat W) T"]
  by simp

theorem pruneMessages_paired_witness:
  "(0::int) \<le> 2
   \<and> 2 < int (length [\<lparr>Role = ''assistant'', Content = [toolUseBlock ''a'' ''fs__read'' ''{}'']\<rparr>,
                      toolMessage (toolResultBlock ''a'' ''ok'' (ToolContent [TextContent ''ok''])),
                      \<lparr>Role = ''assistant'', Content = [textBlock ''done'', toolUseBlock ''b'' ''fs__read'' ''{}'']\<rparr>])
   \<and> pruneMessages 2 [\<lparr>Role = ''assistant'', Content = [toolUseBlock ''a'' ''fs__read'' ''{}'']\<rparr>,
                      toolMessage (toolResultBlock ''a'' ''ok'' (ToolContent [TextContent ''ok''])),
                      \<lparr>Role = ''assistant'', Content = [textBlock ''done'', toolUseBlock ''b'' ''fs__read'' ''{}'']\<rparr>]
       = Inr [\<lparr>Role = ''assistant'', Content = [textBlock ''done'']\<rparr>]
   \<and> paired [\<lparr>Role = ''assistant'', Content = [textBlock ''done'']\<rparr>]"
  using pruneMessages_paired [of 2
           "[\<lparr>Role = ''assistant'', Content = [toolUseBlock ''a'' ''fs__read'' ''{}'']\<rparr>,
             toolMessage (toolResultBlock ''a'' ''ok'' (ToolContent [TextContent ''ok''])),
             \<lparr>Role = ''assistant'', Content = [textBlock ''done'', toolUseBlock ''b'' ''fs__read'' ''{}'']\<rparr>]"]
  by (simp add: prune_eval)

text \<open>
  The claim as written fails below the threshold, where the transcript is returned as it
  is: a call that was skipped has no result, and stays.
\<close>

theorem pruneMessages_unpaired_below_threshold:
  "pruneMessages 10 [\<lparr>Role = ''assistant'', Content = [toolUseBlock ''a'' ''notaqualifiedname'' ''{}'']\<rparr>]
     = Inr [\<lparr>Role = ''assistant'', Content = [toolUseBlock ''a'' ''notaqualifiedname'' ''{}'']\<rparr>]
   \<and> \<not> paired [\<lparr>Role = ''assistant'', Content = [toolUseBlock ''a'' ''notaqualifiedname'' ''{}'']\<rparr>]"
  by (simp add: pruneMessages_def paired_eval)

section \<open>The record of a turn\<close>

lemma sleeps_append [simp]: "sleeps (xs @ ys) = sleeps xs @ sleeps ys"
  by (simp add: sleeps_def)

lemma providerCalls_append [simp]: "providerCalls (xs @ ys) = providerCalls xs @ providerCalls ys"
  by (simp add: providerCalls_def)

lemma toolCalls_append [simp]: "toolCalls (xs @ ys) = toolCalls xs @ toolCalls ys"
  by (simp add: toolCalls_def)

lemma printed_append [simp]: "printed (xs @ ys) = printed xs @ printed ys"
  by (simp add: printed_def)

lemma sleeps_simps [simp]:
  "sleeps [] = []" "sleeps (Slept d # evs) = d # sleeps evs"
  "sleeps (ProviderCalled p ms # evs) = sleeps evs"
  "sleeps (ToolCalled s t # evs) = sleeps evs" "sleeps (Printed x # evs) = sleeps evs"
  by (simp_all add: sleeps_def)

lemma providerCalls_simps [simp]:
  "providerCalls [] = []" "providerCalls (Slept d # evs) = providerCalls evs"
  "providerCalls (ProviderCalled p ms # evs) = (p, ms) # providerCalls evs"
  "providerCalls (ToolCalled s t # evs) = providerCalls evs"
  "providerCalls (Printed x # evs) = providerCalls evs"
  by (simp_all add: providerCalls_def)

lemma toolCalls_simps [simp]:
  "toolCalls [] = []" "toolCalls (Slept d # evs) = toolCalls evs"
  "toolCalls (ProviderCalled p ms # evs) = toolCalls evs"
  "toolCalls (ToolCalled s t # evs) = (s, t) # toolCalls evs"
  "toolCalls (Printed x # evs) = toolCalls evs"
  by (simp_all add: toolCalls_def)

lemma printed_simps [simp]:
  "printed [] = []" "printed (Slept d # evs) = printed evs"
  "printed (ProviderCalled p ms # evs) = printed evs"
  "printed (ToolCalled s t # evs) = printed evs" "printed (Printed x # evs) = x # printed evs"
  by (simp_all add: printed_def)

lemma emit_simps [simp]:
  "transcript (emit e st) = transcript st" "ticks (emit e st) = ticks st"
  "events (emit e st) = events st @ [e]"
  by (simp_all add: emit_def)

lemma tick_simps [simp]:
  "transcript (tick st) = transcript st" "ticks (tick st) = Suc (ticks st)"
  "events (tick st) = events st"
  by (simp_all add: tick_def)

lemma appendMessage_simps [simp]:
  "transcript (appendMessage msg st) = transcript st @ [msg]"
  "ticks (appendMessage msg st) = ticks st" "events (appendMessage msg st) = events st"
  by (simp_all add: appendMessage_def)

section \<open>The retry loop\<close>

declare retryLoop.simps [simp del]

lemma backoff_step:
  assumes "0 < b" "b \<le> maxBackoff"
  shows "(if wrap64 (b * 2) > maxBackoff then maxBackoff else wrap64 (b * 2)) = min (b * 2) maxBackoff"
proof -
  from assms have "0 \<le> b * 2 + 2 ^ 63" and "b * 2 + 2 ^ 63 < (2 ^ 64 :: int)"
    by (simp_all add: maxBackoff_def)
  then have "wrap64 (b * 2) = b * 2"
    by (simp add: wrap64_def)
  then show ?thesis by auto
qed

lemma capped_doubling:
  assumes "0 < b" "0 < m"
  shows "min (min (b * 2) m * 2 ^ n) m = min (b * 2 ^ Suc n) (m :: int)"
proof (cases "b * 2 \<le> m")
  case True
  then show ?thesis by (simp add: mult.assoc)
next
  case False
  have one: "(1::int) \<le> 2 ^ n" by simp
  from False have "min (b * 2) m = m" by simp
  moreover from assms one have "m \<le> m * 2 ^ n"
    using mult_left_mono [of 1 "2 ^ n" m] by simp
  moreover have "m \<le> b * 2 * 2 ^ n"
  proof -
    from assms one have "b * 2 * 1 \<le> b * 2 * 2 ^ n"
      by (intro mult_left_mono) simp_all
    with False show ?thesis by simp
  qed
  ultimately show ?thesis by (simp add: mult.assoc)
qed

lemma retryLoop_overloaded:
  assumes "isOverloaded env (ticks st) prompt ms" and "retries < maxRetries"
  shows "retryLoop env prompt ms b retries st =
           retryLoop env prompt ms
             (if wrap64 (b * 2) > maxBackoff then maxBackoff else wrap64 (b * 2)) (retries + 1)
             (emit (Slept b) (tick (emit (ProviderCalled prompt ms) st)))"
  using assms
  by (subst retryLoop.simps) (simp add: isOverloaded_def Let_def split: sum.splits)

lemma retryLoop_exhausted:
  assumes "isOverloaded env (ticks st) prompt ms" and "maxRetries \<le> retries"
  shows "retryLoop env prompt ms b retries st =
           (Inl overloadedMessage, tick (emit (ProviderCalled prompt ms) st))"
  using assms
  by (subst retryLoop.simps) (simp add: isOverloaded_def Let_def split: sum.splits)

lemma retryLoop_final:
  assumes "\<not> isOverloaded env (ticks st) prompt ms"
  shows "retryLoop env prompt ms b retries st =
           (CreateMessage env (ticks st) prompt ms, tick (emit (ProviderCalled prompt ms) st))"
  using assms
  by (subst retryLoop.simps) (simp add: isOverloaded_def Let_def split: sum.splits)

lemma retryLoop_sleeps:
  "0 < b \<Longrightarrow> b \<le> maxBackoff \<Longrightarrow> retries \<le> maxRetries \<Longrightarrow>
   \<exists>k. int k \<le> maxRetries - retries \<and>
       sleeps (events (snd (retryLoop env prompt ms b retries st)))
         = sleeps (events st) @ map (\<lambda>n. min (b * 2 ^ n) maxBackoff) [0..<k]"
proof (induction "nat (maxRetries - retries)" arbitrary: b retries st)
  case 0
  then have r: "maxRetries \<le> retries" by simp
  show ?case
  proof (cases "isOverloaded env (ticks st) prompt ms")
    case True
    with r 0 show ?thesis
      by (intro exI [of _ 0]) (simp add: retryLoop_exhausted)
  next
    case False
    with 0 show ?thesis
      by (intro exI [of _ 0]) (simp add: retryLoop_final)
  qed
next
  case (Suc x)
  then have r: "retries < maxRetries" by simp
  show ?case
  proof (cases "isOverloaded env (ticks st) prompt ms")
    case False
    with Suc show ?thesis
      by (intro exI [of _ 0]) (simp add: retryLoop_final)
  next
    case True
    let ?b = "min (b * 2) maxBackoff"
    let ?st = "emit (Slept b) (tick (emit (ProviderCalled prompt ms) st))"
    have step: "retryLoop env prompt ms b retries st = retryLoop env prompt ms ?b (retries + 1) ?st"
      using retryLoop_overloaded [OF True r] backoff_step [OF Suc.prems(1) Suc.prems(2)] by simp
    have "x = nat (maxRetries - (retries + 1))" using Suc.hyps(2) by simp
    moreover have "0 < ?b" "?b \<le> maxBackoff" "retries + 1 \<le> maxRetries"
      using Suc.prems r by (simp_all add: maxBackoff_def)
    ultimately obtain k where k: "int k \<le> maxRetries - (retries + 1)"
      and s: "sleeps (events (snd (retryLoop env prompt ms ?b (retries + 1) ?st)))
              = sleeps (events ?st) @ map (\<lambda>n. min (?b * 2 ^ n) maxBackoff) [0..<k]"
      using Suc.hyps(1) [of "retries + 1" ?b ?st] by blast
    have m: "0 < maxBackoff" by (simp add: maxBackoff_def)
    have "map (\<lambda>n. min (b * 2 ^ n) maxBackoff) [0..<Suc k]
          = b # map (\<lambda>n. min (?b * 2 ^ n) maxBackoff) [0..<k]"
    proof -
      have "[0..<Suc k] = 0 # map Suc [0..<k]"
        by (simp add: upt_conv_Cons map_Suc_upt del: upt_Suc)
      then show ?thesis
        using Suc.prems(2) capped_doubling [OF Suc.prems(1) m]
        by (simp add: comp_def del: upt_Suc power_Suc)
    qed
    with k s step show ?thesis
      by (intro exI [of _ "Suc k"]) simp
  qed
qed

lemma retryLoop_after_failures:
  "(\<forall>i<k. isOverloaded env (ticks st + i) prompt ms) \<Longrightarrow> retries + int k \<le> maxRetries \<Longrightarrow>
   \<not> isOverloaded env (ticks st + k) prompt ms \<Longrightarrow>
   \<exists>st'. retryLoop env prompt ms b retries st = (CreateMessage env (ticks st + k) prompt ms, st')
        \<and> transcript st' = transcript st \<and> ticks st' = ticks st + k + 1
        \<and> providerCalls (events st') = providerCalls (events st) @ replicate (Suc k) (prompt, ms)
        \<and> length (sleeps (events st')) = length (sleeps (events st)) + k
        \<and> toolCalls (events st') = toolCalls (events st)
        \<and> printed (events st') = printed (events st)"
proof (induction k arbitrary: b retries st)
  case 0
  then show ?case by (simp add: retryLoop_final)
next
  case (Suc k)
  let ?b = "if wrap64 (b * 2) > maxBackoff then maxBackoff else wrap64 (b * 2)"
  let ?st = "emit (Slept b) (tick (emit (ProviderCalled prompt ms) st))"
  from Suc.prems have ov: "isOverloaded env (ticks st) prompt ms" and r: "retries < maxRetries"
    by auto
  have step: "retryLoop env prompt ms b retries st = retryLoop env prompt ms ?b (retries + 1) ?st"
    by (rule retryLoop_overloaded [OF ov r])
  have "\<forall>i<k. isOverloaded env (ticks ?st + i) prompt ms"
    using Suc.prems(1) by auto
  moreover have "retries + 1 + int k \<le> maxRetries" using Suc.prems(2) by simp
  moreover have "\<not> isOverloaded env (ticks ?st + k) prompt ms" using Suc.prems(3) by simp
  ultimately obtain st' where
    "retryLoop env prompt ms ?b (retries + 1) ?st = (CreateMessage env (ticks ?st + k) prompt ms, st')"
    "transcript st' = transcript ?st" "ticks st' = ticks ?st + k + 1"
    "providerCalls (events st') = providerCalls (events ?st) @ replicate (Suc k) (prompt, ms)"
    "length (sleeps (events st')) = length (sleeps (events ?st)) + k"
    "toolCalls (events st') = toolCalls (events ?st)"
    "printed (events st') = printed (events ?st)"
    using Suc.IH [of ?st "retries + 1" ?b] by blast
  with step show ?case
    by (intro exI [of _ st']) (simp add: replicate_app_Cons_same)
qed

lemma retryLoop_all_overloaded:
  "(\<forall>i \<le> nat (maxRetries - retries). isOverloaded env (ticks st + i) prompt ms) \<Longrightarrow>
   retries \<le> maxRetries \<Longrightarrow>
   \<exists>st'. retryLoop env prompt ms b retries st = (Inl overloadedMessage, st')
        \<and> transcript st' = transcript st
        \<and> ticks st' = ticks st + nat (maxRetries - retries) + 1
        \<and> length (sleeps (events st')) = length (sleeps (events st)) + nat (maxRetries - retries)"
proof (induction "nat (maxRetries - retries)" arbitrary: b retries st)
  case 0
  then have "maxRetries \<le> retries" and "isOverloaded env (ticks st) prompt ms" by auto
  with 0 show ?case by (simp add: retryLoop_exhausted)
next
  case (Suc x)
  let ?b = "if wrap64 (b * 2) > maxBackoff then maxBackoff else wrap64 (b * 2)"
  let ?st = "emit (Slept b) (tick (emit (ProviderCalled prompt ms) st))"
  from Suc have r: "retries < maxRetries" and ov: "isOverloaded env (ticks st) prompt ms" by auto
  have step: "retryLoop env prompt ms b retries st = retryLoop env prompt ms ?b (retries + 1) ?st"
    by (rule retryLoop_overloaded [OF ov r])
  have x: "x = nat (maxRetries - (retries + 1))" using Suc.hyps(2) by simp
  have "\<forall>i \<le> nat (maxRetries - (retries + 1)). isOverloaded env (ticks ?st + i) prompt ms"
  proof (intro allI impI)
    fix i assume "i \<le> nat (maxRetries - (retries + 1))"
    then have "Suc i \<le> nat (maxRetries - retries)" using r by simp
    with Suc.prems(1) have "isOverloaded env (ticks st + Suc i) prompt ms" by blast
    then show "isOverloaded env (ticks ?st + i) prompt ms" by simp
  qed
  moreover have "retries + 1 \<le> maxRetries" using r by simp
  ultimately obtain st' where
    "retryLoop env prompt ms ?b (retries + 1) ?st = (Inl overloadedMessage, st')"
    "transcript st' = transcript ?st"
    "ticks st' = ticks ?st + nat (maxRetries - (retries + 1)) + 1"
    "length (sleeps (events st')) = length (sleeps (events ?st)) + nat (maxRetries - (retries + 1))"
    using Suc.hyps(1) [OF x, of ?st ?b] by blast
  moreover from r have "nat (maxRetries - retries) = Suc (nat (maxRetries - (retries + 1)))"
    by simp
  ultimately show ?case
    using step by (intro exI [of _ st']) simp
qed


declare runPrompt.simps(2) [simp del]

declare runPromptNonInteractive.simps(2) [simp del]

lemma showPrompt_simps [simp]:
  "transcript (showPrompt env prompt st) = transcript st @ (if prompt = [] then [] else [userMessage prompt])"
  "ticks (showPrompt env prompt st) = ticks st"
  "providerCalls (events (showPrompt env prompt st)) = providerCalls (events st)"
  "toolCalls (events (showPrompt env prompt st)) = toolCalls (events st)"
  "sleeps (events (showPrompt env prompt st)) = sleeps (events st)"
  by (simp_all add: showPrompt_def)

lemma capped_doubling_sorted: "sorted (map (\<lambda>n. min (b * 2 ^ n) maxBackoff) [0..<k])" if "0 < b" for b :: int
proof -
  have "min (b * 2 ^ i) maxBackoff \<le> min (b * 2 ^ j) maxBackoff" if "i \<le> j" for i j :: nat
  proof -
    from \<open>i \<le> j\<close> have "(2::int) ^ i \<le> 2 ^ j" by (simp add: power_increasing)
    with \<open>0 < b\<close> have "b * 2 ^ i \<le> b * 2 ^ j" by (intro mult_left_mono) simp_all
    then show ?thesis by (simp add: min_le_iff_disj)
  qed
  then show ?thesis
    by (simp add: sorted_map sorted_wrt_iff_nth_less)
qed

section \<open>Backoff\<close>

text \<open>
  Claim C4. The delays slept by the retry loop of \<open>runPrompt\<close>, which starts with
  \<open>initialBackoff\<close> and no retries, are the first \<open>k\<close> values of the sequence that starts
  at \<open>initialBackoff\<close>, doubles each time and is capped at \<open>maxBackoff\<close>, for some \<open>k\<close> of at
  most \<open>maxRetries\<close>; they are in non-decreasing order and none exceeds \<open>maxBackoff\<close>. When
  the provider reports the overloaded condition \<open>maxRetries + 1\<close> times in a row, the loop
  has slept \<open>maxRetries\<close> times and ends with the terminal error after the last of these
  provider calls.
\<close>

theorem retryLoop_backoff:
  "\<exists>k \<le> nat maxRetries.
     sleeps (events (snd (retryLoop env prompt ms initialBackoff 0 st)))
       = sleeps (events st) @ map (\<lambda>n. min (initialBackoff * 2 ^ n) maxBackoff) [0..<k]
     \<and> sorted (map (\<lambda>n. min (initialBackoff * 2 ^ n) maxBackoff) [0..<k])
     \<and> (\<forall>d \<in> set (map (\<lambda>n. min (initialBackoff * 2 ^ n) maxBackoff) [0..<k]). d \<le> maxBackoff)
     \<and> ((\<forall>i \<le> nat maxRetries. isOverloaded env (ticks st + i) prompt ms) \<longrightarrow>
           k = nat maxRetries
           \<and> fst (retryLoop env prompt ms initialBackoff 0 st) = Inl overloadedMessage
           \<and> ticks (snd (retryLoop env prompt ms initialBackoff 0 st)) = ticks st + nat maxRetries + 1)"
proof -
  let ?f = "\<lambda>n. min (initialBackoff * 2 ^ n) maxBackoff"
  let ?res = "retryLoop env prompt ms initialBackoff 0 st"
  have init: "0 < initialBackoff" "initialBackoff \<le> maxBackoff" "(0::int) \<le> maxRetries"
    by (simp_all add: initialBackoff_def maxBackoff_def maxRetries_def)
  from retryLoop_sleeps [OF init, of env prompt ms st]
  obtain k where k: "int k \<le> maxRetries"
    and s: "sleeps (events (snd ?res)) = sleeps (events st) @ map ?f [0..<k]"
    by auto
  have "k = nat maxRetries \<and> fst ?res = Inl overloadedMessage
        \<and> ticks (snd ?res) = ticks st + nat maxRetries + 1"
    if "\<forall>i \<le> nat maxRetries. isOverloaded env (ticks st + i) prompt ms"
  proof -
    from that init(3) retryLoop_all_overloaded [of 0 env st prompt ms initialBackoff]
    obtain st' where st': "?res = (Inl overloadedMessage, st')"
      "ticks st' = ticks st + nat maxRetries + 1"
      "length (sleeps (events st')) = length (sleeps (events st)) + nat maxRetries"
      by auto
    with s have "k = nat maxRetries" by simp
    with st' show ?thesis by simp
  qed
  moreover have "sorted (map ?f [0..<k])"
    using init(1) by (rule capped_doubling_sorted)
  moreover have "\<forall>d \<in> set (map ?f [0..<k]). d \<le> maxBackoff" by simp
  moreover from k have "k \<le> nat maxRetries" by simp
  ultimately show ?thesis using s by blast
qed

text \<open>
  A provider that is overloaded at every call: the loop sleeps 1, 2, 4, 8 and 16 seconds
  and gives up at the sixth failure.
\<close>

theorem retryLoop_backoff_witness:
  "list_all (\<lambda>i. isOverloaded (plainEnv (\<lambda>n p ms. Inl ''overloaded_error'')) i ''hi'' [])
     [0, 1, 2, 3, 4, 5]
   \<and> sleeps (events (snd (retryLoop (plainEnv (\<lambda>n p ms. Inl ''overloaded_error'')) ''hi'' [] initialBackoff 0
                            \<lparr>transcript = [], ticks = 0, events = []\<rparr>)))
       = [1000000000, 2000000000, 4000000000, 8000000000, 16000000000]
   \<and> fst (retryLoop (plainEnv (\<lambda>n p ms. Inl ''overloaded_error'')) ''hi'' [] initialBackoff 0
            \<lparr>transcript = [], ticks = 0, events = []\<rparr>) = Inl overloadedMessage"
proof -
  have ov: "\<forall>i \<le> nat maxRetries.
      isOverloaded (plainEnv (\<lambda>n p ms. Inl ''overloaded_error'')) (ticks \<lparr>transcript = [], ticks = 0, events = []\<rparr> + i) ''hi'' []"
    by (simp add: isOverloaded_def Contains_def)
  have five: "[0..<nat maxRetries] = [0, 1, 2, 3, 4]"
    by (simp add: maxRetries_def upt_conv_Cons eval_nat_numeral del: upt_Suc)
  from ov retryLoop_backoff [of "plainEnv (\<lambda>n p ms. Inl ''overloaded_error'')" "''hi''" "[]"
      "\<lparr>transcript = [], ticks = 0, events = []\<rparr>"]
  show ?thesis
    by (auto simp: five initialBackoff_def maxBackoff_def isOverloaded_def Contains_def)
qed

section \<open>Provider errors\<close>

text \<open>
  Claim C5. When the provider reports the overloaded condition \<open>k\<close> times in a row, with
  \<open>k\<close> at most \<open>maxRetries\<close>, and then fails with any other error, \<open>runPrompt\<close> returns that
  error as it is: the provider was called \<open>k + 1\<close> times with the same prompt and
  transcript, one sleep followed each overloaded failure, no tool was called, and nothing
  was appended to the transcript after the \<open>user\<close> turn. For \<open>k = 0\<close> the error of the
  first call is returned at once. (The provider calls of the loop are the outside calls
  number \<open>ticks st\<close>, \<open>ticks st + 1\<close> and so on.)
\<close>

theorem runPrompt_provider_error:
  assumes "\<forall>i<k. isOverloaded env (ticks st + i) prompt (transcript (showPrompt env prompt st))"
    and "int k \<le> maxRetries"
    and "CreateMessage env (ticks st + k) prompt (transcript (showPrompt env prompt st)) = Inl err"
    and "\<not> Contains err ''overloaded_error''"
  shows "\<exists>st'. runPrompt (Suc rounds) env mcpClients prompt st = Some (Some err, st')
           \<and> transcript st' = transcript st @ (if prompt = [] then [] else [userMessage prompt])
           \<and> providerCalls (events st')
               = providerCalls (events st) @ replicate (Suc k) (prompt, transcript (showPrompt env prompt st))
           \<and> length (sleeps (events st')) = length (sleeps (events st)) + k
           \<and> toolCalls (events st') = toolCalls (events st)"
proof -
  let ?st1 = "showPrompt env prompt st"
  have "\<forall>i<k. isOverloaded env (ticks ?st1 + i) prompt (transcript ?st1)"
    using assms(1) by simp
  moreover have "0 + int k \<le> maxRetries" using assms(2) by simp
  moreover have "\<not> isOverloaded env (ticks ?st1 + k) prompt (transcript ?st1)"
    using assms(3,4) by (simp add: isOverloaded_def)
  ultimately obtain st' where
    "retryLoop env prompt (transcript ?st1) initialBackoff 0 ?st1
       = (CreateMessage env (ticks ?st1 + k) prompt (transcript ?st1), st')"
    "transcript st' = transcript ?st1" "ticks st' = ticks ?st1 + k + 1"
    "providerCalls (events st') = providerCalls (events ?st1) @ replicate (Suc k) (prompt, transcript ?st1)"
    "length (sleeps (events st')) = length (sleeps (events ?st1)) + k"
    "toolCalls (events st') = toolCalls (events ?st1)"
    using retryLoop_after_failures [of k env ?st1 prompt "transcript ?st1" 0 initialBackoff]
    by blast
  with assms(3) show ?thesis
    by (intro exI [of _ st']) (simp add: runPrompt.simps(2) Let_def)
qed

text \<open>
  Two overloaded failures and then an authentication failure: three provider calls, two
  sleeps, and the authentication error comes back with only the \<open>user\<close> turn appended.
\<close>

theorem runPrompt_provider_error_witness:
  "list_all (\<lambda>i. isOverloaded (plainEnv (\<lambda>n p ms. if n < 2 then Inl ''overloaded_error'' else Inl ''401 unauthorized''))
                    i ''hi'' [userMessage ''hi'']) [0, 1]
   \<and> int 2 \<le> maxRetries
   \<and> \<not> Contains ''401 unauthorized'' ''overloaded_error''
   \<and> (\<exists>st'. runPrompt (Suc 0) (plainEnv (\<lambda>n p ms. if n < 2 then Inl ''overloaded_error'' else Inl ''401 unauthorized''))
                Map.empty ''hi'' \<lparr>transcript = [], ticks = 0, events = []\<rparr> = Some (Some ''401 unauthorized'', st')
            \<and> transcript st' = [userMessage ''hi'']
            \<and> providerCalls (events st') = replicate 3 (''hi'', [userMessage ''hi''])
            \<and> length (sleeps (events st')) = 2
            \<and> toolCalls (events st') = [])"
proof -
  let ?env = "plainEnv (\<lambda>n p ms. if n < 2 then Inl ''overloaded_error'' else Inl ''401 unauthorized'') :: string env"
  let ?st = "\<lparr>transcript = [], ticks = 0, events = []\<rparr>"
  have a: "\<forall>i<2. isOverloaded ?env (ticks ?st + i) ''hi'' (transcript (showPrompt ?env ''hi'' ?st))"
    by (simp add: isOverloaded_def Contains_def)
  have b: "int 2 \<le> maxRetries" by (simp add: maxRetries_def)
  have c: "CreateMessage ?env (ticks ?st + 2) ''hi'' (transcript (showPrompt ?env ''hi'' ?st)) = Inl ''401 unauthorized''"
    by simp
  have d: "\<not> Contains ''401 unauthorized'' ''overloaded_error''"
    by (simp add: Contains_def)
  have e: "list_all (\<lambda>i. isOverloaded ?env i ''hi'' [userMessage ''hi'']) [0, 1]"
    by (simp add: isOverloaded_def Contains_def)
  from runPrompt_provider_error [OF a b c d, of 0 Map.empty] b d e
  show ?thesis by (simp add: numeral_3_eq_3 numeral_2_eq_2)
qed

section \<open>The non-interactive turn: a reply with text\<close>

text \<open>
  Claim C10. When the provider's reply to \<open>runPromptNonInteractive\<close> has text, that text
  is returned with no error after this one provider call: the transcript is as it was (no
  \<open>user\<close>, \<open>assistant\<close> or \<open>tool\<close> turn is appended), no tool is called, whatever tool
  calls the reply asks for, and nothing is printed.
\<close>

theorem runPromptNonInteractive_text_reply:
  assumes "CreateMessage env (ticks st) prompt (transcript st) = Inr message"
    and "GetContent message \<noteq> []"
  shows "\<exists>st'. runPromptNonInteractive (Suc rounds) env mcpClients prompt st
                 = Some (Inr (GetContent message), st')
           \<and> transcript st' = transcript st
           \<and> providerCalls (events st') = providerCalls (events st) @ [(prompt, transcript st)]
           \<and> toolCalls (events st') = toolCalls (events st)
           \<and> printed (events st') = printed (events st)"
  using assms
  by (intro exI [of _ "tick (emit (ProviderCalled prompt (transcript st)) st)"])
     (simp add: runPromptNonInteractive.simps(2) Let_def)

text \<open>
  A reply with text and a call of a tool on a connected server: the text comes back, the
  transcript stays empty and the tool is not called.
\<close>

theorem runPromptNonInteractive_text_reply_witness:
  "\<exists>st'. runPromptNonInteractive (Suc 0)
            (plainEnv (\<lambda>n p ms. Inr (Message ''assistant'' ''hello'' [ToolCall ''c1'' ''fs__read'' ''{}''] (0, 0))))
            [''fs'' \<mapsto> (\<lambda>n tool arguments. Inr (CallToolResult (Some [TextContent ''ok''])))]
            ''hi'' \<lparr>transcript = [], ticks = 0, events = []\<rparr>
          = Some (Inr ''hello'', st')
      \<and> transcript st' = []
      \<and> providerCalls (events st') = [(''hi'', [])]
      \<and> toolCalls (events st') = []
      \<and> printed (events st') = []"
  using runPromptNonInteractive_text_reply
    [of "plainEnv (\<lambda>n p ms. Inr (Message ''assistant'' ''hello'' [ToolCall ''c1'' ''fs__read'' ''{}''] (0, 0)))"
        "\<lparr>transcript = [], ticks = 0, events = []\<rparr>" "''hi''"
        "Message ''assistant'' ''hello'' [ToolCall ''c1'' ''fs__read'' ''{}''] (0, 0)" 0
        "[''fs'' \<mapsto> (\<lambda>n tool arguments. Inr (CallToolResult (Some [TextContent ''ok''])))]"]
  by simp

section \<open>The two entry points on one prompt\<close>

text \<open>
  Claim C1 says that both entry points append turns to the transcript, a \<open>user\<close> turn
  for a non-empty prompt in particular. On the prompt \<open>hi\<close>, an empty transcript and a
  provider that answers \<open>hello\<close>, \<open>runPrompt\<close> appends the \<open>user\<close> turn and the
  \<open>assistant\<close> turn, while \<open>runPromptNonInteractive\<close> returns \<open>hello\<close> and leaves the
  transcript empty.
\<close>

theorem entry_points_differ:
  "map_option (transcript \<circ> snd)
     (runPrompt (Suc 0) (plainEnv (\<lambda>n p ms. Inr (Message ''assistant'' ''hello'' [] (0, 0))))
        Map.empty ''hi'' \<lparr>transcript = [], ticks = 0, events = []\<rparr>)
     = Some [userMessage ''hi'', \<lparr>Role = ''assistant'', Content = [textBlock ''hello'']\<rparr>]
   \<and> map_option (\<lambda>r. (fst r, transcript (snd r)))
     (runPromptNonInteractive (Suc 0) (plainEnv (\<lambda>n p ms. Inr (Message ''assistant'' ''hello'' [] (0, 0))))
        Map.empty ''hi'' \<lparr>transcript = [], ticks = 0, events = []\<rparr>)
     = Some (Inr ''hello'', [])"
  by (simp add: runPrompt.simps(2) runPromptNonInteractive.simps(2) retryLoop.simps [of _ _ _ _ 0]
        showPrompt_def showReply_def Let_def)

section \<open>One tool call\<close>

declare Split.simps [simp del]

declare TrimLeft.simps [simp del]

declare TrimRight.simps [simp del]

lemmas string_eval =
  Split.simps TrimLeft.simps TrimRight.simps TrimSpace_def leadingSpace_def trailingSpace_def
  spaceRunes_def suffix_to_prefix Contains_def

lemma handleToolCall_skipped:
  assumes "length (Split (GetName toolCall) ''__'') \<noteq> 2
           \<or> mcpClients (hd (Split (GetName toolCall) ''__'')) = None
           \<or> (\<exists>err. Unmarshal env (Marshal env (GetArguments toolCall)) = Inl err)"
  shows "\<exists>line. handleToolCall env mcpClients toolCall (mc, trs, st)
           = (mc @ [toolUseBlock (GetID toolCall) (GetName toolCall) (Marshal env (GetArguments toolCall))],
              trs, emit (Printed line) st)"
  using assms
  by (auto simp: handleToolCall_def Let_def split: list.splits option.splits sum.splits)


lemma resultText_fold:
  "fold (\<lambda>item resultText. case item of TextContent text \<Rightarrow> resultText @ text @ '' ''
                                       | OtherContent _ \<Rightarrow> resultText) content acc
     = acc @ concat (map (\<lambda>text. text @ '' '') (textItems content))"
  by (induction content arbitrary: acc) (auto simp: textItems_def split: mcpContent.splits)

lemma resultText_eq: "resultText content = concat (map (\<lambda>text. text @ '' '') (textItems content))"
  by (simp add: resultText_def resultText_fold)

lemma handleToolCall_succeeded:
  assumes "Split (GetName toolCall) ''__'' = [serverName, toolName]"
    and "mcpClients serverName = Some mcpClient"
    and "Unmarshal env (Marshal env (GetArguments toolCall)) = Inr toolArgs"
    and "mcpClient (ticks st) toolName toolArgs = Inr (CallToolResult (Some content))"
  shows "handleToolCall env mcpClients toolCall (mc, trs, st)
           = (mc @ [toolUseBlock (GetID toolCall) (GetName toolCall) (Marshal env (GetArguments toolCall))],
              trs @ [toolResultBlock (GetID toolCall)
                       (TrimSpace (concat (map (\<lambda>text. text @ '' '') (textItems content))))
                       (ToolContent content)],
              tick (emit (ToolCalled serverName toolName) st))"
  using assms by (simp add: handleToolCall_def Let_def resultText_eq)

lemma handleToolCall_dispatched:
  assumes "dispatched a = dispatched b"
  shows "dispatched (handleToolCall env mcpClients toolCall a)
           = dispatched (handleToolCall env mcpClients toolCall b)"
proof -
  obtain mc trs st where a: "a = (mc, trs, st)" by (cases a)
  obtain mc' trs' st' where b: "b = (mc', trs', st')" by (cases b)
  from assms a b have eq: "trs' = trs" "toolCalls (events st') = toolCalls (events st)" "ticks st' = ticks st"
    by (simp_all add: dispatched_def)
  show ?thesis
    unfolding a b handleToolCall_def Let_def dispatched_def
    by (simp add: eq split: list.splits option.splits sum.splits)
qed

lemma fold_handleToolCall_dispatched:
  "dispatched a = dispatched b \<Longrightarrow>
   dispatched (fold (handleToolCall env mcpClients) calls a)
     = dispatched (fold (handleToolCall env mcpClients) calls b)"
proof (induction calls arbitrary: a b)
  case Nil
  then show ?case by simp
next
  case (Cons toolCall calls)
  from Cons.prems have "dispatched (handleToolCall env mcpClients toolCall a)
                        = dispatched (handleToolCall env mcpClients toolCall b)"
    by (rule handleToolCall_dispatched)
  then have "dispatched (fold (handleToolCall env mcpClients) calls (handleToolCall env mcpClients toolCall a))
             = dispatched (fold (handleToolCall env mcpClients) calls (handleToolCall env mcpClients toolCall b))"
    by (rule Cons.IH)
  then show ?case by simp
qed

lemma handleToolCall_results:
  "\<exists>new. fst (snd (handleToolCall env mcpClients toolCall (mc, trs, st))) = trs @ new
         \<and> (\<forall>r \<in> set new. Type r = ''tool_result'' \<and> ToolUseID r = GetID toolCall)
         \<and> length new \<le> 1"
  by (auto simp: handleToolCall_def Let_def toolResultBlock_def split: list.splits option.splits sum.splits)

lemma handleToolCall_transcript:
  "transcript (snd (snd (handleToolCall env mcpClients toolCall (mc, trs, st)))) = transcript st"
  by (auto simp: handleToolCall_def Let_def split: list.splits option.splits sum.splits)

section \<open>One round of the interactive turn\<close>

lemma retryLoop_transcript:
  "transcript (snd (retryLoop env prompt ms b retries st)) = transcript st"
proof (induction "nat (maxRetries - retries)" arbitrary: b retries st)
  case 0
  then have r: "maxRetries \<le> retries" by simp
  show ?case
    by (cases "isOverloaded env (ticks st) prompt ms")
       (simp_all add: retryLoop_exhausted [OF _ r] retryLoop_final)
next
  case (Suc x)
  then have r: "retries < maxRetries" by simp
  show ?case
  proof (cases "isOverloaded env (ticks st) prompt ms")
    case False
    then show ?thesis by (simp add: retryLoop_final)
  next
    case True
    have "x = nat (maxRetries - (retries + 1))" using Suc.hyps(2) by simp
    from Suc.hyps(1) [OF this] show ?thesis
      by (simp add: retryLoop_overloaded [OF True r])
  qed
qed

lemma showReply_text:
  assumes "GetContent message \<noteq> []" and "UpdateRenderer env (Suc (ticks st)) = None"
  shows "\<exists>st'. showReply env message st = (Inr [textBlock (GetContent message)], st')
           \<and> transcript st' = transcript st \<and> ticks st' = ticks st + 3
           \<and> providerCalls (events st') = providerCalls (events st)
           \<and> toolCalls (events st') = toolCalls (events st)"
  using assms
  by (auto simp: showReply_def Let_def split: sum.splits)

lemma showReply_empty:
  assumes "GetContent message = []"
  shows "\<exists>st'. showReply env message st = (Inr [], st')
           \<and> transcript st' = transcript st \<and> ticks st' = ticks st + 1
           \<and> providerCalls (events st') = providerCalls (events st)
           \<and> toolCalls (events st') = toolCalls (events st)"
  using assms
  by (auto simp: showReply_def Let_def split: sum.splits)

lemma showReply_transcript:
  "transcript (snd (showReply env message st)) = transcript st"
  by (auto simp: showReply_def Let_def split: sum.splits option.splits)

lemma appendToolResults_fold:
  "transcript (fold (\<lambda>toolResult. appendMessage (toolMessage toolResult)) trs st)
     = transcript st @ map toolMessage trs
   \<and> ticks (fold (\<lambda>toolResult. appendMessage (toolMessage toolResult)) trs st) = ticks st
   \<and> events (fold (\<lambda>toolResult. appendMessage (toolMessage toolResult)) trs st) = events st"
  by (induction trs arbitrary: st) simp_all

lemma appendToolResults_simps [simp]:
  "transcript (appendToolResults trs st) = transcript st @ map toolMessage trs"
  "ticks (appendToolResults trs st) = ticks st"
  "events (appendToolResults trs st) = events st"
  by (simp_all add: appendToolResults_def appendToolResults_fold)

lemma fold_handleToolCall_transcript:
  "transcript (snd (snd (fold (handleToolCall env mcpClients) calls acc))) = transcript (snd (snd acc))"
proof (induction calls arbitrary: acc)
  case Nil
  then show ?case by simp
next
  case (Cons toolCall calls)
  obtain mc trs st where acc: "acc = (mc, trs, st)" by (cases acc)
  show ?case
    using Cons.IH [of "handleToolCall env mcpClients toolCall acc"]
    by (simp add: acc handleToolCall_transcript)
qed

lemma fold_handleToolCall_results:
  "\<exists>new. fst (snd (fold (handleToolCall env mcpClients) calls (mc, trs, st))) = trs @ new
         \<and> subseq (map ToolUseID new) (map GetID calls)
         \<and> (\<forall>r \<in> set new. Type r = ''tool_result'')"
proof (induction calls arbitrary: mc trs st)
  case Nil
  show ?case by simp
next
  case (Cons toolCall calls)
  obtain mc1 trs1 st1 where step: "handleToolCall env mcpClients toolCall (mc, trs, st) = (mc1, trs1, st1)"
    by (cases "handleToolCall env mcpClients toolCall (mc, trs, st)")
  from handleToolCall_results [of env mcpClients toolCall mc trs st] step
  obtain new1 where new1: "trs1 = trs @ new1" "length new1 \<le> 1"
    "\<forall>r \<in> set new1. Type r = ''tool_result'' \<and> ToolUseID r = GetID toolCall"
    by auto
  from Cons.IH [of mc1 trs1 st1]
  obtain new2 where new2: "fst (snd (fold (handleToolCall env mcpClients) calls (mc1, trs1, st1))) = trs1 @ new2"
    "subseq (map ToolUseID new2) (map GetID calls)" "\<forall>r \<in> set new2. Type r = ''tool_result''"
    by blast
  have "subseq (map ToolUseID new1) [GetID toolCall]"
  proof (cases new1)
    case Nil
    then show ?thesis by simp
  next
    case (Cons r rs)
    with new1 have "rs = []" "ToolUseID r = GetID toolCall" by auto
    with Cons show ?thesis by simp
  qed
  then have "subseq (map ToolUseID new1 @ map ToolUseID new2) ([GetID toolCall] @ map GetID calls)"
    using new2(2) by (rule list_emb_append_mono)
  with new1 new2 step show ?case
    by (intro exI [of _ "new1 @ new2"]) auto
qed


lemma runPrompt_round:
  assumes "retryLoop env prompt (transcript (showPrompt env prompt st)) initialBackoff 0
             (showPrompt env prompt st) = (Inr message, st2)"
    and "showReply env message st2 = (Inr mc0, st3)"
    and "fold (handleToolCall env mcpClients) (GetToolCalls message) (mc0, [], st3) = (mc, trs, st4)"
  shows "runPrompt (Suc rounds) env mcpClients prompt st =
           (if trs = [] then
              Some (None, emit (Printed NL) (appendMessage \<lparr>Role = GetRole message, Content = mc\<rparr> st4))
            else runPrompt rounds env mcpClients []
                   (appendToolResults trs (appendMessage \<lparr>Role = GetRole message, Content = mc\<rparr> st4)))"
  using assms by (subst runPrompt.simps(2)) (simp add: Let_def)

lemma retryLoop_first_reply:
  assumes "CreateMessage env (ticks st) prompt ms = Inr message"
  shows "\<exists>st'. retryLoop env prompt ms b retries st = (Inr message, st')
           \<and> transcript st' = transcript st \<and> ticks st' = ticks st + 1
           \<and> providerCalls (events st') = providerCalls (events st) @ [(prompt, ms)]
           \<and> toolCalls (events st') = toolCalls (events st)"
  using assms by (simp add: retryLoop_final isOverloaded_def)

section \<open>Skipped tool calls\<close>

text \<open>
  A tool call whose name does not split into exactly two parts on \<open>__\<close>, or whose server
  is not among the clients, or whose arguments do not parse, is reported by one printed
  line and skipped by the loop body: the call is recorded in the assistant turn, no tool
  result is added and no tool is called. The loop goes on: what the loop over all tool
  calls of a reply dispatches (the tool results, the tool calls made, the number of
  outside calls) is what it dispatches without the skipped call.
\<close>

lemma fold_handleToolCall_skipped:
  assumes "length (Split (GetName toolCall) ''__'') \<noteq> 2
           \<or> mcpClients (hd (Split (GetName toolCall) ''__'')) = None
           \<or> (\<exists>err. Unmarshal env (Marshal env (GetArguments toolCall)) = Inl err)"
  shows "dispatched (fold (handleToolCall env mcpClients) (before @ toolCall # after) acc)
           = dispatched (fold (handleToolCall env mcpClients) (before @ after) acc)"
proof -
  let ?h = "handleToolCall env mcpClients"
  obtain mc' trs' st' where mid: "fold ?h before acc = (mc', trs', st')"
    by (cases "fold ?h before acc")
  from assms handleToolCall_skipped [of toolCall mcpClients env mc' trs' st']
  have "dispatched (?h toolCall (mc', trs', st')) = dispatched (mc', trs', st')"
    by (auto simp: dispatched_def)
  then have "dispatched (fold ?h after (?h toolCall (mc', trs', st')))
             = dispatched (fold ?h after (mc', trs', st'))"
    by (rule fold_handleToolCall_dispatched)
  with mid show ?thesis by simp
qed

lemmas run_eval =
  runPrompt.simps(2) runPromptNonInteractive.simps(2) retryLoop.simps [of _ _ _ _ 0]
  showPrompt_def showReply_def handleToolCall_def resultText_def appendToolResults_def
  userMessage_def toolMessage_def textBlock_def toolUseBlock_def toolResultBlock_def Let_def

text \<open>
  Claim C6 holds of \<open>runPrompt\<close> and fails in \<open>runPromptNonInteractive\<close> on a reply with
  text. The provider answers the prompt \<open>hi\<close> with the calls \<open>notaqualifiedname\<close> and
  \<open>fs__read\<close>, and answers \<open>Done.\<close> the next time; the file server is connected.
  \<^item> When the first reply has the text \<open>Working on it.\<close>, \<open>runPromptNonInteractive\<close> returns
    that text: nothing is printed, so the malformed call is not reported, no tool is
    called, so the valid call is not dispatched, and the transcript stays empty.
  \<^item> On the same reply \<open>runPrompt\<close> prints the report of the malformed call, calls
    \<open>read\<close> on \<open>fs\<close>, appends one \<open>tool\<close> turn, for the valid call, and ends the turn
    with no error after the second reply.
  \<^item> When the first reply has no text, \<open>runPromptNonInteractive\<close> does the same: the
    report is printed, \<open>read\<close> is called, one \<open>tool\<close> turn is appended, and the text of
    the second reply is returned.
\<close>

theorem skipped_invocation_entry_points:
  "map_option (\<lambda>r. (fst r, printed (events (snd r)), toolCalls (events (snd r)), transcript (snd r)))
     (runPromptNonInteractive (Suc (Suc 0))
        (plainEnv (\<lambda>n p ms. if n = 0
           then Inr (Message ''assistant'' ''Working on it.''
                  [ToolCall ''c1'' ''notaqualifiedname'' ''{}'', ToolCall ''c2'' ''fs__read'' ''{}''] (0, 0))
           else Inr (Message ''assistant'' ''Done.'' [] (0, 0))))
        [''fs'' \<mapsto> (\<lambda>n tool arguments. Inr (CallToolResult (Some [TextContent ''ok''])))]
        ''hi'' \<lparr>transcript = [], ticks = 0, events = []\<rparr>)
     = Some (Inr ''Working on it.'', [], [], [])
   \<and> map_option (\<lambda>r. (fst r, printed (events (snd r)), toolCalls (events (snd r)), transcript (snd r)))
     (runPrompt (Suc (Suc 0))
        (plainEnv (\<lambda>n p ms. if n = 0
           then Inr (Message ''assistant'' ''Working on it.''
                  [ToolCall ''c1'' ''notaqualifiedname'' ''{}'', ToolCall ''c2'' ''fs__read'' ''{}''] (0, 0))
           else Inr (Message ''assistant'' ''Done.'' [] (0, 0))))
        [''fs'' \<mapsto> (\<lambda>n tool arguments. Inr (CallToolResult (Some [TextContent ''ok''])))]
        ''hi'' \<lparr>transcript = [], ticks = 0, events = []\<rparr>)
     = Some (None,
         [NL @ ''You: hi'' @ NL, NL @ ''Assistant: '', ''Working on it.'' @ NL,
          ''Error: Invalid tool name format: notaqualifiedname'' @ NL,
          NL @ ''Assistant: '', ''Done.'' @ NL, NL],
         [(''fs'', ''read'')],
         [\<lparr>Role = ''user'', Content = [ContentBlock ''text'' ''hi'' [] [] [] [] NoPayload]\<rparr>,
          \<lparr>Role = ''assistant'',
             Content = [ContentBlock ''text'' ''Working on it.'' [] [] [] [] NoPayload,
                        ContentBlock ''tool_use'' [] ''c1'' [] ''notaqualifiedname'' ''{}'' NoPayload,
                        ContentBlock ''tool_use'' [] ''c2'' [] ''fs__read'' ''{}'' NoPayload]\<rparr>,
          \<lparr>Role = ''tool'',
             Content = [ContentBlock ''tool_result'' ''ok'' [] ''c2'' [] []
                          (ToolContent [TextContent ''ok''])]\<rparr>,
          \<lparr>Role = ''assistant'', Content = [ContentBlock ''text'' ''Done.'' [] [] [] [] NoPayload]\<rparr>])
   \<and> map_option (\<lambda>r. (fst r, printed (events (snd r)), toolCalls (events (snd r)), transcript (snd r)))
     (runPromptNonInteractive (Suc (Suc 0))
        (plainEnv (\<lambda>n p ms. if n = 0
           then Inr (Message ''assistant'' []
                  [ToolCall ''c1'' ''notaqualifiedname'' ''{}'', ToolCall ''c2'' ''fs__read'' ''{}''] (0, 0))
           else Inr (Message ''assistant'' ''Done.'' [] (0, 0))))
        [''fs'' \<mapsto> (\<lambda>n tool arguments. Inr (CallToolResult (Some [TextContent ''ok''])))]
        ''hi'' \<lparr>transcript = [], ticks = 0, events = []\<rparr>)
     = Some (Inr ''Done.'',
         [''Error: Invalid tool name format: notaqualifiedname'' @ NL],
         [(''fs'', ''read'')],
         [\<lparr>Role = ''assistant'',
             Content = [ContentBlock ''tool_use'' [] ''c1'' [] ''notaqualifiedname'' ''{}'' NoPayload,
                        ContentBlock ''tool_use'' [] ''c2'' [] ''fs__read'' ''{}'' NoPayload]\<rparr>,
          \<lparr>Role = ''tool'',
             Content = [ContentBlock ''tool_result'' ''ok'' [] ''c2'' [] []
                          (ToolContent [TextContent ''ok''])]\<rparr>])"
proof -
  have names: "Split ''notaqualifiedname'' ''__'' = [''notaqualifiedname'']"
    "Split ''fs__read'' ''__'' = [''fs'', ''read'']"
    by (simp_all add: string_eval)
  have trim: "TrimSpace ''ok '' = ''ok''"
    by (simp add: string_eval)
  show ?thesis
    by (simp add: run_eval names trim)
qed




lemma runPrompt_last_round:
  assumes "CreateMessage env (ticks st) [] (transcript st) = Inr message2"
    and "GetToolCalls message2 = []"
    and "\<forall>n. UpdateRenderer env n = None"
  shows "\<exists>st'. runPrompt (Suc rounds) env mcpClients [] st = Some (None, st')
           \<and> transcript st'
               = transcript st @ [\<lparr>Role = GetRole message2,
                                   Content = (if GetContent message2 = [] then []
                                              else [textBlock (GetContent message2)])\<rparr>]
           \<and> providerCalls (events st') = providerCalls (events st) @ [([], transcript st)]
           \<and> toolCalls (events st') = toolCalls (events st)"
proof -
  have same: "showPrompt env [] st = st"
    by (simp add: showPrompt_def)
  from retryLoop_first_reply [OF assms(1), of initialBackoff 0]
  obtain st7 where st7:
    "retryLoop env [] (transcript st) initialBackoff 0 st = (Inr message2, st7)"
    "transcript st7 = transcript st"
    "providerCalls (events st7) = providerCalls (events st) @ [([], transcript st)]"
    "toolCalls (events st7) = toolCalls (events st)"
    by auto
  let ?mc2 = "if GetContent message2 = [] then [] else [textBlock (GetContent message2)]"
  have "\<exists>st8. showReply env message2 st7 = (Inr ?mc2, st8)
           \<and> transcript st8 = transcript st7
           \<and> providerCalls (events st8) = providerCalls (events st7)
           \<and> toolCalls (events st8) = toolCalls (events st7)"
  proof (cases "GetContent message2 = []")
    case True
    from showReply_empty [OF this, of env st7] True show ?thesis by auto
  next
    case False
    from assms(3) have "UpdateRenderer env (Suc (ticks st7)) = None" by simp
    from showReply_text [OF False this] False show ?thesis by auto
  qed
  then obtain st8 where st8:
    "showReply env message2 st7 = (Inr ?mc2, st8)"
    "transcript st8 = transcript st"
    "providerCalls (events st8) = providerCalls (events st) @ [([], transcript st)]"
    "toolCalls (events st8) = toolCalls (events st)"
    using st7 by auto
  have none: "fold (handleToolCall env mcpClients) (GetToolCalls message2) (?mc2, [], st8) = (?mc2, [], st8)"
    using assms(2) by simp
  let ?st' = "emit (Printed NL) (appendMessage \<lparr>Role = GetRole message2, Content = ?mc2\<rparr> st8)"
  from st7(1) have "retryLoop env [] (transcript (showPrompt env [] st)) initialBackoff 0
                      (showPrompt env [] st) = (Inr message2, st7)"
    by (simp only: same)
  from runPrompt_round [OF this st8(1) none, of rounds]
  have "runPrompt (Suc rounds) env mcpClients [] st = Some (None, ?st')"
    by simp
  then show ?thesis
    using st8 by (intro exI [of _ ?st']) simp
qed

section \<open>A tool call that fails\<close>








section \<open>Tool results\<close>

lemma resultText_items:
  "resultText content
     = concat (map (\<lambda>item. case item of TextContent text \<Rightarrow> text @ '' '' | OtherContent other \<Rightarrow> [])
                content)"
  by (simp add: resultText_eq textItems_def map_concat comp_def)
     (induction content, simp_all split: mcpContent.splits)

lemma handleToolCall_no_content:
  assumes "Split (GetName toolCall) ''__'' = [serverName, toolName]"
    and "mcpClients serverName = Some mcpClient"
    and "Unmarshal env (Marshal env (GetArguments toolCall)) = Inr toolArgs"
    and "mcpClient (ticks st) toolName toolArgs = Inr (CallToolResult None)"
  shows "handleToolCall env mcpClients toolCall (mc, trs, st)
           = (mc @ [toolUseBlock (GetID toolCall) (GetName toolCall) (Marshal env (GetArguments toolCall))],
              trs, tick (emit (ToolCalled serverName toolName) st))"
  using assms by (simp add: handleToolCall_def Let_def)

text \<open>
  Claim C8, as the code has it. (1) A successful tool call whose result content is not
  \<open>nil\<close> adds one segment: its type is \<open>tool_result\<close>, it refers to the call, its content
  is the raw content, and its text is the concatenation of the plain-text items of the
  content, each followed by one space, with the white space at both ends trimmed. (2) A
  successful call whose content is \<open>nil\<close> adds no segment. (3) In a round of \<open>runPrompt\<close>
  whose tool loop produced results, the \<open>assistant\<close> turn and then one \<open>tool\<close> turn per
  result, each with that one segment, are appended in the order of the results, and
  \<open>runPrompt\<close> calls the provider again with the empty prompt and this transcript; when
  that reply asks for no tool (and the renderer can be made), the turn ends with no
  error and the transcript is the one before the turn, the \<open>user\<close> turn of a non-empty
  prompt, the \<open>assistant\<close> turn, the \<open>tool\<close> turns and the second \<open>assistant\<close> turn. The
  results are \<open>tool_result\<close> segments and answer tool calls of the reply in the order of
  these calls.
\<close>

theorem runPrompt_tool_results:
  "(Split (GetName toolCall) ''__'' = [serverName, toolName] \<and> mcpClients serverName = Some mcpClient
      \<and> Unmarshal env (Marshal env (GetArguments toolCall)) = Inr toolArgs
      \<and> mcpClient (ticks st) toolName toolArgs = Inr (CallToolResult (Some content))
    \<longrightarrow> fst (snd (handleToolCall env mcpClients toolCall (mc, trs, st)))
          = trs @ [ContentBlock ''tool_result''
                     (TrimSpace (concat (map (\<lambda>item. case item of TextContent text \<Rightarrow> text @ '' ''
                                                          | OtherContent other \<Rightarrow> []) content)))
                     [] (GetID toolCall) [] [] (ToolContent content)])
   \<and> (Split (GetName toolCall) ''__'' = [serverName, toolName] \<and> mcpClients serverName = Some mcpClient
      \<and> Unmarshal env (Marshal env (GetArguments toolCall)) = Inr toolArgs
      \<and> mcpClient (ticks st) toolName toolArgs = Inr (CallToolResult None)
    \<longrightarrow> fst (snd (handleToolCall env mcpClients toolCall (mc, trs, st))) = trs)
   \<and> (retryLoop env prompt (transcript (showPrompt env prompt st0)) initialBackoff 0
          (showPrompt env prompt st0) = (Inr message, st2)
      \<and> showReply env message st2 = (Inr messageContent0, st3)
      \<and> fold (handleToolCall env mcpClients) (GetToolCalls message) (messageContent0, [], st3)
          = (messageContent, toolResults, st4)
      \<and> toolResults \<noteq> []
      \<and> T2 = transcript st0
              @ (if prompt = [] then []
                 else [\<lparr>Role = ''user'', Content = [ContentBlock ''text'' prompt [] [] [] [] NoPayload]\<rparr>])
              @ [\<lparr>Role = GetRole message, Content = messageContent\<rparr>]
              @ map (\<lambda>toolResult. \<lparr>Role = ''tool'', Content = [toolResult]\<rparr>) toolResults
      \<and> CreateMessage env (ticks st4) [] T2 = Inr message2
      \<and> GetToolCalls message2 = []
      \<and> (\<forall>n. UpdateRenderer env n = None)
    \<longrightarrow> (\<exists>st'. runPrompt (Suc (Suc rounds)) env mcpClients prompt st0 = Some (None, st')
              \<and> transcript st'
                  = T2 @ [\<lparr>Role = GetRole message2,
                           Content = (if GetContent message2 = [] then []
                                      else [ContentBlock ''text'' (GetContent message2) [] [] [] [] NoPayload])\<rparr>]
              \<and> providerCalls (events st') = providerCalls (events st4) @ [([], T2)]
              \<and> toolCalls (events st') = toolCalls (events st4))
        \<and> subseq (map ToolUseID toolResults) (map GetID (GetToolCalls message))
        \<and> (\<forall>toolResult \<in> set toolResults. Type toolResult = ''tool_result''))"
proof (intro conjI impI)
  assume "Split (GetName toolCall) ''__'' = [serverName, toolName] \<and> mcpClients serverName = Some mcpClient
      \<and> Unmarshal env (Marshal env (GetArguments toolCall)) = Inr toolArgs
      \<and> mcpClient (ticks st) toolName toolArgs = Inr (CallToolResult (Some content))"
  then show "fst (snd (handleToolCall env mcpClients toolCall (mc, trs, st)))
          = trs @ [ContentBlock ''tool_result''
                     (TrimSpace (concat (map (\<lambda>item. case item of TextContent text \<Rightarrow> text @ '' ''
                                                          | OtherContent other \<Rightarrow> []) content)))
                     [] (GetID toolCall) [] [] (ToolContent content)]"
    by (simp add: handleToolCall_def Let_def resultText_items toolResultBlock_def)
next
  assume "Split (GetName toolCall) ''__'' = [serverName, toolName] \<and> mcpClients serverName = Some mcpClient
      \<and> Unmarshal env (Marshal env (GetArguments toolCall)) = Inr toolArgs
      \<and> mcpClient (ticks st) toolName toolArgs = Inr (CallToolResult None)"
  then show "fst (snd (handleToolCall env mcpClients toolCall (mc, trs, st))) = trs"
    using handleToolCall_no_content [where mcpClient = mcpClient and mcpClients = mcpClients
        and env = env and st = st and mc = mc and trs = trs and toolCall = toolCall
        and serverName = serverName and toolName = toolName and toolArgs = toolArgs]
    by simp
next
  assume round: "retryLoop env prompt (transcript (showPrompt env prompt st0)) initialBackoff 0
          (showPrompt env prompt st0) = (Inr message, st2)
      \<and> showReply env message st2 = (Inr messageContent0, st3)
      \<and> fold (handleToolCall env mcpClients) (GetToolCalls message) (messageContent0, [], st3)
          = (messageContent, toolResults, st4)
      \<and> toolResults \<noteq> []
      \<and> T2 = transcript st0
              @ (if prompt = [] then []
                 else [\<lparr>Role = ''user'', Content = [ContentBlock ''text'' prompt [] [] [] [] NoPayload]\<rparr>])
              @ [\<lparr>Role = GetRole message, Content = messageContent\<rparr>]
              @ map (\<lambda>toolResult. \<lparr>Role = ''tool'', Content = [toolResult]\<rparr>) toolResults
      \<and> CreateMessage env (ticks st4) [] T2 = Inr message2
      \<and> GetToolCalls message2 = []
      \<and> (\<forall>n. UpdateRenderer env n = None)"
  then have r: "retryLoop env prompt (transcript (showPrompt env prompt st0)) initialBackoff 0
          (showPrompt env prompt st0) = (Inr message, st2)"
    and s: "showReply env message st2 = (Inr messageContent0, st3)"
    and f: "fold (handleToolCall env mcpClients) (GetToolCalls message) (messageContent0, [], st3)
          = (messageContent, toolResults, st4)"
    and ne: "toolResults \<noteq> []"
    and T2: "T2 = transcript st0
              @ (if prompt = [] then []
                 else [\<lparr>Role = ''user'', Content = [ContentBlock ''text'' prompt [] [] [] [] NoPayload]\<rparr>])
              @ [\<lparr>Role = GetRole message, Content = messageContent\<rparr>]
              @ map (\<lambda>toolResult. \<lparr>Role = ''tool'', Content = [toolResult]\<rparr>) toolResults"
    and reply2: "CreateMessage env (ticks st4) [] T2 = Inr message2"
    and nocalls: "GetToolCalls message2 = []"
    and renderer: "\<forall>n. UpdateRenderer env n = None"
    by blast+
  let ?st5 = "appendToolResults toolResults
                (appendMessage \<lparr>Role = GetRole message, Content = messageContent\<rparr> st4)"
  have t2: "transcript st2 = transcript (showPrompt env prompt st0)"
    using retryLoop_transcript [of env prompt "transcript (showPrompt env prompt st0)" initialBackoff 0
        "showPrompt env prompt st0"] r by simp
  have t3: "transcript st3 = transcript st2"
    using showReply_transcript [of env message st2] s by simp
  have t4: "transcript st4 = transcript st3"
    using fold_handleToolCall_transcript [of env mcpClients "GetToolCalls message" "(messageContent0, [], st3)"] f
    by simp
  have round1: "runPrompt (Suc (Suc rounds)) env mcpClients prompt st0
                = runPrompt (Suc rounds) env mcpClients [] ?st5"
    using runPrompt_round [OF r s f, of "Suc rounds"] ne by simp
  have t5: "transcript ?st5 = T2"
    using t2 t3 t4 T2 by (simp add: toolMessage_def [abs_def] userMessage_def textBlock_def)
  have "CreateMessage env (ticks ?st5) [] (transcript ?st5) = Inr message2"
  proof -
    have "ticks ?st5 = ticks st4" by simp
    with reply2 show ?thesis by (simp only: t5)
  qed
  from runPrompt_last_round [OF this nocalls renderer, of rounds mcpClients]
  obtain st' where "runPrompt (Suc rounds) env mcpClients [] ?st5 = Some (None, st')"
    "transcript st' = transcript ?st5 @ [\<lparr>Role = GetRole message2,
                                   Content = (if GetContent message2 = [] then []
                                              else [textBlock (GetContent message2)])\<rparr>]"
    "providerCalls (events st') = providerCalls (events ?st5) @ [([], transcript ?st5)]"
    "toolCalls (events st') = toolCalls (events ?st5)"
    by blast
  moreover have "events ?st5 = events st4" by simp
  ultimately show "\<exists>st'. runPrompt (Suc (Suc rounds)) env mcpClients prompt st0 = Some (None, st')
              \<and> transcript st'
                  = T2 @ [\<lparr>Role = GetRole message2,
                           Content = (if GetContent message2 = [] then []
                                      else [ContentBlock ''text'' (GetContent message2) [] [] [] [] NoPayload])\<rparr>]
              \<and> providerCalls (events st') = providerCalls (events st4) @ [([], T2)]
              \<and> toolCalls (events st') = toolCalls (events st4)"
    using round1 t5 by (intro exI [of _ st']) (simp add: textBlock_def)
  from fold_handleToolCall_results [of env mcpClients "GetToolCalls message" messageContent0 "[]" st3] f
  show "subseq (map ToolUseID toolResults) (map GetID (GetToolCalls message))"
    and "\<forall>toolResult \<in> set toolResults. Type toolResult = ''tool_result''"
    by auto
qed

text \<open>
  The claim as written fails on a result with two text items: the summary has a space
  between them, which their concatenation has not.
\<close>

theorem tool_result_text_has_spaces:
  "fst (snd (handleToolCall (plainEnv (\<lambda>n p ms. Inl ''unused''))
               [''fs'' \<mapsto> (\<lambda>n tool arguments. Inr (CallToolResult (Some [TextContent ''a'', TextContent ''b''])))]
               (ToolCall ''c1'' ''fs__read'' ''{}'')
               ([], [], \<lparr>transcript = [], ticks = 0, events = []\<rparr>)))
     = [ContentBlock ''tool_result'' ''a b'' [] ''c1'' [] [] (ToolContent [TextContent ''a'', TextContent ''b''])]
   \<and> TrimSpace (''a'' @ ''b'') = ''ab''"
proof -
  have "Split ''fs__read'' ''__'' = [''fs'', ''read'']"
    by (simp add: string_eval)
  moreover have "TrimSpace ''a b '' = ''a b''" "TrimSpace ''ab'' = ''ab''"
    by (simp_all add: string_eval)
  ultimately show ?thesis
    by (simp add: handleToolCall_def resultText_def toolResultBlock_def Let_def)
qed


text \<open>
  The reply asks for three tools of the file server. The first result has the text items
  \<open>a\<close> and \<open>b\<close>, the second has no text, the third has no content: two \<open>tool\<close> turns
  follow the \<open>assistant\<close> turn, in the order of the calls, and the turn ends after the
  second reply.
\<close>

theorem runPrompt_tool_results_witness:
  "fst (snd (handleToolCall
       (plainEnv (\<lambda>n p ms. if n = 0
          then Inr (Message ''assistant'' []
                 [ToolCall ''c1'' ''fs__read'' ''{}'', ToolCall ''c2'' ''fs__list'' ''{}'',
                  ToolCall ''c3'' ''fs__ping'' ''{}''] (0, 0))
          else Inr (Message ''assistant'' ''Done.'' [] (0, 0))))
       [''fs'' \<mapsto> (\<lambda>n tool arguments.
           if tool = ''read'' then Inr (CallToolResult (Some [TextContent ''a'', TextContent ''b'']))
           else if tool = ''list'' then Inr (CallToolResult (Some [OtherContent ''image'']))
           else Inr (CallToolResult None))]
       (ToolCall ''c1'' ''fs__read'' ''{}'') ([], [], \<lparr>transcript = [], ticks = 0, events = []\<rparr>)))
     = [ContentBlock ''tool_result'' ''a b'' [] ''c1'' [] [] (ToolContent [TextContent ''a'', TextContent ''b''])]
   \<and> fst (snd (handleToolCall
       (plainEnv (\<lambda>n p ms. if n = 0
          then Inr (Message ''assistant'' []
                 [ToolCall ''c1'' ''fs__read'' ''{}'', ToolCall ''c2'' ''fs__list'' ''{}'',
                  ToolCall ''c3'' ''fs__ping'' ''{}''] (0, 0))
          else Inr (Message ''assistant'' ''Done.'' [] (0, 0))))
       [''fs'' \<mapsto> (\<lambda>n tool arguments.
           if tool = ''read'' then Inr (CallToolResult (Some [TextContent ''a'', TextContent ''b'']))
           else if tool = ''list'' then Inr (CallToolResult (Some [OtherContent ''image'']))
           else Inr (CallToolResult None))]
       (ToolCall ''c3'' ''fs__ping'' ''{}'') ([], [], \<lparr>transcript = [], ticks = 0, events = []\<rparr>)))
     = []
   \<and> (\<exists>st'. runPrompt (Suc (Suc 0))
         (plainEnv (\<lambda>n p ms. if n = 0
            then Inr (Message ''assistant'' []
                   [ToolCall ''c1'' ''fs__read'' ''{}'', ToolCall ''c2'' ''fs__list'' ''{}'',
                    ToolCall ''c3'' ''fs__ping'' ''{}''] (0, 0))
            else Inr (Message ''assistant'' ''Done.'' [] (0, 0))))
         [''fs'' \<mapsto> (\<lambda>n tool arguments.
             if tool = ''read'' then Inr (CallToolResult (Some [TextContent ''a'', TextContent ''b'']))
             else if tool = ''list'' then Inr (CallToolResult (Some [OtherContent ''image'']))
             else Inr (CallToolResult None))]
         ''hi'' \<lparr>transcript = [], ticks = 0, events = []\<rparr>
       = Some (None, st')
     \<and> transcript st'
         = [\<lparr>Role = ''user'', Content = [ContentBlock ''text'' ''hi'' [] [] [] [] NoPayload]\<rparr>,
            \<lparr>Role = ''assistant'',
               Content = [ContentBlock ''tool_use'' [] ''c1'' [] ''fs__read'' ''{}'' NoPayload,
                          ContentBlock ''tool_use'' [] ''c2'' [] ''fs__list'' ''{}'' NoPayload,
                          ContentBlock ''tool_use'' [] ''c3'' [] ''fs__ping'' ''{}'' NoPayload]\<rparr>,
            \<lparr>Role = ''tool'',
               Content = [ContentBlock ''tool_result'' ''a b'' [] ''c1'' [] []
                            (ToolContent [TextContent ''a'', TextContent ''b''])]\<rparr>,
            \<lparr>Role = ''tool'',
               Content = [ContentBlock ''tool_result'' [] [] ''c2'' [] []
                            (ToolContent [OtherContent ''image''])]\<rparr>,
            \<lparr>Role = ''assistant'', Content = [ContentBlock ''text'' ''Done.'' [] [] [] [] NoPayload]\<rparr>])"
proof -
  let ?calls = "[ToolCall ''c1'' ''fs__read'' ''{}'', ToolCall ''c2'' ''fs__list'' ''{}'',
                 ToolCall ''c3'' ''fs__ping'' ''{}'']"
  let ?m = "Message ''assistant'' [] ?calls (0, 0) :: string Message"
  let ?m2 = "Message ''assistant'' ''Done.'' [] (0, 0) :: string Message"
  let ?client = "\<lambda>(n::nat) (tool::string) (arguments::string).
           if tool = ''read'' then Inr (CallToolResult (Some [TextContent ''a'', TextContent ''b'']))
           else if tool = ''list'' then Inr (CallToolResult (Some [OtherContent ''image'']))
           else Inr (CallToolResult None) :: string + CallToolResult"
  let ?st = "\<lparr>transcript = [], ticks = 0, events = []\<rparr>"
  let ?uses = "[ContentBlock ''tool_use'' [] ''c1'' [] ''fs__read'' ''{}'' NoPayload,
                ContentBlock ''tool_use'' [] ''c2'' [] ''fs__list'' ''{}'' NoPayload,
                ContentBlock ''tool_use'' [] ''c3'' [] ''fs__ping'' ''{}'' NoPayload]"
  let ?r1 = "ContentBlock ''tool_result'' ''a b'' [] ''c1'' [] [] (ToolContent [TextContent ''a'', TextContent ''b''])"
  let ?r2 = "ContentBlock ''tool_result'' [] [] ''c2'' [] [] (ToolContent [OtherContent ''image''])"
  let ?T2 = "[\<lparr>Role = ''user'', Content = [ContentBlock ''text'' ''hi'' [] [] [] [] NoPayload]\<rparr>,
              \<lparr>Role = ''assistant'', Content = ?uses\<rparr>,
              \<lparr>Role = ''tool'', Content = [?r1]\<rparr>, \<lparr>Role = ''tool'', Content = [?r2]\<rparr>]"
  define env :: "string env" where "env = plainEnv (\<lambda>n p ms. if n = 0 then Inr ?m else Inr ?m2)"
  define cl :: "string \<rightharpoonup> string MCPClient" where "cl = [''fs'' \<mapsto> ?client]"
  define st1 where "st1 = showPrompt env ''hi'' ?st"
  define st2 where "st2 = snd (retryLoop env ''hi'' (transcript st1) initialBackoff 0 st1)"
  define st3 where "st3 = snd (showReply env ?m st2)"
  define st4 where "st4 = snd (snd (fold (handleToolCall env cl) (GetToolCalls ?m) ([], [], st3)))"
  have names: "Split ''fs__read'' ''__'' = [''fs'', ''read'']" "Split ''fs__list'' ''__'' = [''fs'', ''list'']"
    "Split ''fs__ping'' ''__'' = [''fs'', ''ping'']"
    by (simp_all add: string_eval)
  have trims: "TrimSpace ''a b '' = ''a b''" "TrimSpace [] = []"
    by (simp_all add: string_eval)
  have json: "Marshal env = (\<lambda>arguments. arguments)" "Unmarshal env = Inr"
    and renderer: "\<forall>n. UpdateRenderer env n = None"
    and first: "CreateMessage env 0 ''hi'' (transcript st1) = Inr ?m"
    and later: "\<And>n ms. n \<noteq> 0 \<Longrightarrow> CreateMessage env n [] ms = Inr ?m2"
    by (simp_all add: env_def)
  have one: "Split (GetName (ToolCall ''c1'' ''fs__read'' ''{}'')) ''__'' = [''fs'', ''read'']
      \<and> cl ''fs'' = Some ?client
      \<and> Unmarshal env (Marshal env (GetArguments (ToolCall ''c1'' ''fs__read'' ''{}''))) = Inr ''{}''
      \<and> ?client (ticks ?st) ''read'' ''{}'' = Inr (CallToolResult (Some [TextContent ''a'', TextContent ''b'']))"
    by (simp add: names json cl_def)
  have two: "Split (GetName (ToolCall ''c3'' ''fs__ping'' ''{}'')) ''__'' = [''fs'', ''ping'']
      \<and> cl ''fs'' = Some ?client
      \<and> Unmarshal env (Marshal env (GetArguments (ToolCall ''c3'' ''fs__ping'' ''{}''))) = Inr ''{}''
      \<and> ?client (ticks ?st) ''ping'' ''{}'' = Inr (CallToolResult None)"
    by (simp add: names json cl_def)
  have t1: "ticks st1 = 0" "transcript st1 = [userMessage ''hi'']"
    by (simp_all add: st1_def)
  from first t1 have "CreateMessage env (ticks st1) ''hi'' (transcript st1) = Inr ?m" by simp
  from retryLoop_first_reply [OF this, of initialBackoff 0]
  have retry: "retryLoop env ''hi'' (transcript st1) initialBackoff 0 st1 = (Inr ?m, st2)"
    and t2: "transcript st2 = [userMessage ''hi'']"
    using t1 by (auto simp: st2_def)
  from showReply_empty [of ?m env st2]
  have shown: "showReply env ?m st2 = (Inr [], st3)"
    by (auto simp: st3_def)
  have folded: "fold (handleToolCall env cl) (GetToolCalls ?m) ([], [], st3) = (?uses, [?r1, ?r2], st4)"
    by (simp add: st4_def handleToolCall_def resultText_def toolUseBlock_def toolResultBlock_def
          names trims json cl_def Let_def)
  have t4: "ticks st4 \<noteq> 0"
    by (simp add: st4_def handleToolCall_def names json cl_def Let_def)
  have ne: "[?r1, ?r2] \<noteq> []" by simp
  have T2: "?T2 = transcript ?st
              @ (if ''hi'' = [] then []
                 else [\<lparr>Role = ''user'', Content = [ContentBlock ''text'' ''hi'' [] [] [] [] NoPayload]\<rparr>])
              @ [\<lparr>Role = GetRole ?m, Content = ?uses\<rparr>]
              @ map (\<lambda>toolResult. \<lparr>Role = ''tool'', Content = [toolResult]\<rparr>) [?r1, ?r2]"
    by simp
  have reply2: "CreateMessage env (ticks st4) [] ?T2 = Inr ?m2"
    using later [OF t4] .
  have nocalls: "GetToolCalls ?m2 = []" by simp
  note read = runPrompt_tool_results [where mcpClients = cl and env = env
      and prompt = "''hi''" and ?st0.0 = ?st and message = ?m and ?st2.0 = st2
      and ?messageContent0.0 = "[]" and ?st3.0 = st3
      and messageContent = ?uses and toolResults = "[?r1, ?r2]" and ?st4.0 = st4
      and ?T2.0 = ?T2 and ?message2.0 = ?m2 and rounds = 0
      and serverName = "''fs''" and mcpClient = ?client
      and toolArgs = "''{}''" and st = ?st and mc = "[]" and trs = "[]"
      and toolCall = "ToolCall ''c1'' ''fs__read'' ''{}''" and toolName = "''read''"
      and content = "[TextContent ''a'', TextContent ''b'']"]
  note ping = runPrompt_tool_results [where mcpClients = cl and env = env
      and prompt = "''hi''" and ?st0.0 = ?st and message = ?m and ?st2.0 = st2
      and ?messageContent0.0 = "[]" and ?st3.0 = st3
      and messageContent = ?uses and toolResults = "[?r1, ?r2]" and ?st4.0 = st4
      and ?T2.0 = ?T2 and ?message2.0 = ?m2 and rounds = 0
      and serverName = "''fs''" and mcpClient = ?client
      and toolArgs = "''{}''" and st = ?st and mc = "[]" and trs = "[]"
      and toolCall = "ToolCall ''c3'' ''fs__ping'' ''{}''" and toolName = "''ping''"
      and content = "[]"]
  have part1: "fst (snd (handleToolCall env cl (ToolCall ''c1'' ''fs__read'' ''{}'') ([], [], ?st))) = [?r1]"
    using read [THEN conjunct1, THEN mp, OF one] by (simp add: trims)
  have part2: "fst (snd (handleToolCall env cl (ToolCall ''c3'' ''fs__ping'' ''{}'') ([], [], ?st))) = []"
    using ping [THEN conjunct2, THEN conjunct1, THEN mp, OF two] by simp
  note hyps = conjI [OF retry [unfolded st1_def] conjI [OF shown conjI [OF folded conjI [OF ne
                conjI [OF T2 conjI [OF reply2 conjI [OF nocalls renderer]]]]]]]
  note round = read [THEN conjunct2, THEN conjunct2, THEN mp, OF hyps, THEN conjunct1]
  then obtain st' where "runPrompt (Suc (Suc 0)) env cl ''hi'' ?st = Some (None, st')"
    and "transcript st' = ?T2 @ [\<lparr>Role = GetRole ?m2,
            Content = (if GetContent ?m2 = [] then []
                       else [ContentBlock ''text'' (GetContent ?m2) [] [] [] [] NoPayload])\<rparr>]"
    by blast
  then have part3: "\<exists>st'. runPrompt (Suc (Suc 0)) env cl ''hi'' ?st = Some (None, st')
     \<and> transcript st' = ?T2 @ [\<lparr>Role = ''assistant'', Content = [ContentBlock ''text'' ''Done.'' [] [] [] [] NoPayload]\<rparr>]"
    by (intro exI [of _ st']) simp
  from part1 part2 part3 show ?thesis
    unfolding env_def cl_def by simp
qed

end
